theory Spec2Isabelle
  imports Main "HOL-Library.Monad_Syntax" "HOL-Library.Signed_Division"
begin

section \<open>Data model of GTMatrix_Update.c\<close>

text \<open>
  The update path of GTMatrix works on a matrix handle (\<^verbatim>\<open>GTMatrix_t\<close>, a pointer to
  a struct), issues MPI one-sided calls and, in batch mode, stores requests in
  per-destination request vectors.

  Conventions of the embedding:
  \<^item> a C \<^verbatim>\<open>int\<close> has 32 bits. It is a HOL \<open>int\<close> in the range \<open>c_int\<close>, and the
    result of \<^verbatim>\<open>+\<close>, \<^verbatim>\<open>-\<close> and \<^verbatim>\<open>*\<close> on ints wraps around modulo \<open>2^32\<close>
    (\<open>c_add\<close>, \<open>c_sub\<close>, \<open>c_mul\<close>), which is what the compiled program computes where
    the C standard leaves signed overflow undefined. Only the increment of a counter
    that stays below a value of type \<^verbatim>\<open>int\<close> is written with \<open>+\<close>: the counters of
    the \<^verbatim>\<open>for\<close> loops (a block index is below \<^verbatim>\<open>r_blocks\<close> or \<^verbatim>\<open>c_blocks\<close>), and the
    two counters of the non-blocking protocol, which the flush keeps below
    \<^verbatim>\<open>max_nb_acc\<close>;
  \<^item> a C array is a list read through \<open>rd\<close>, which checks the index;
  \<^item> a function returns \<open>None\<close> where the C program has no defined result
    (out-of-range read, division by zero, failed \<^verbatim>\<open>assert\<close>, NULL dereference)
    and \<open>Some (return code, new state)\<close> otherwise;
  \<^item> the MPI library is an environment: every call the code makes is appended, in
    order and with its arguments, to the field \<open>mpi_calls\<close> of the handle;
  \<^item> a pointer into the caller's source buffer is its byte address, an \<open>int\<close>;
    the NULL handle is \<open>None\<close>.
\<close>

datatype retval =
    GTM_SUCCESS
  | GTM_NULL_PTR
  | GTM_INVALID_BLOCK
  | GTM_IN_BATCHED_GET
  | GTM_IN_BATCHED_PUT
  | GTM_IN_BATCHED_ACC
  | GTM_NO_BATCHED_PUT
  | GTM_NO_BATCHED_ACC

datatype mpi_op = MPI_REPLACE | MPI_SUM

datatype access_mode = BLOCKING_ACCESS | NONBLOCKING_ACCESS | BATCH_ACCESS

text \<open>
  An \<^verbatim>\<open>MPI_Datatype\<close> the code passes to \<^verbatim>\<open>MPI_Accumulate\<close>: an entry of the cached
  tables \<^verbatim>\<open>gtm->sb_stride\<close> and \<^verbatim>\<open>gtm->sb_nostride\<close> (by its index), or a type built
  by \<^verbatim>\<open>MPI_Type_vector(count, blocklength, stride, gtm->datatype, _)\<close>.
\<close>

datatype mpi_dt =
    Sb_stride int
  | Sb_nostride int
  | Vector_dt int int int

datatype mpi_call =
    MPI_Win_lock int int
  | MPI_Win_unlock int
  | MPI_Type_vector int int int
  | MPI_Type_commit mpi_dt
  | MPI_Accumulate int mpi_dt int int mpi_dt mpi_op
  | MPI_Type_free mpi_dt

text \<open>
  One entry of a request vector: the values \<^verbatim>\<open>GTM_execBatchUpdate\<close> reads at index
  \<^verbatim>\<open>i\<close> from \<^verbatim>\<open>ops\<close>, \<^verbatim>\<open>row_starts\<close>, \<^verbatim>\<open>row_nums\<close>, \<^verbatim>\<open>col_starts\<close>, \<^verbatim>\<open>col_nums\<close>,
  \<^verbatim>\<open>src_bufs\<close> and \<^verbatim>\<open>src_buf_lds\<close>. A request vector is the list of its
  \<^verbatim>\<open>curr_size\<close> entries.
\<close>

record request =
  req_op :: mpi_op
  req_row_start :: int
  req_row_num :: int
  req_col_start :: int
  req_col_num :: int
  req_src_buf :: int
  req_src_buf_ld :: int

record GTMatrix =
  nrows :: int
  ncols :: int
  r_blocks :: int
  c_blocks :: int
  r_displs :: "int list"
  c_displs :: "int list"
  ld_local :: int
  unit_size :: int
  my_rank :: int
  comm_size :: int
  acc_lock_type :: int
  nb_op_proc_cnt :: "int list"
  nb_op_cnt :: int
  max_nb_acc :: int
  req_vec :: "request list list"
  in_batch_get :: int
  in_batch_put :: int
  in_batch_acc :: int
  mpi_calls :: "mpi_call list"

subsection \<open>C primitives\<close>

definition rd :: "'a list \<Rightarrow> int \<Rightarrow> 'a option" where
  "rd xs i = (if 0 \<le> i \<and> i < int (length xs) then Some (xs ! nat i) else None)"

definition wr :: "'a list \<Rightarrow> int \<Rightarrow> 'a \<Rightarrow> 'a list option" where
  "wr xs i v = (if 0 \<le> i \<and> i < int (length xs) then Some (xs[nat i := v]) else None)"

text \<open>The values of type \<^verbatim>\<open>int\<close>, and the value an arithmetic result wraps around to.\<close>

definition c_int :: "int \<Rightarrow> bool" where
  "c_int x \<longleftrightarrow> - 2147483648 \<le> x \<and> x \<le> 2147483647"

definition i32 :: "int \<Rightarrow> int" where
  "i32 x = (x + 2147483648) mod 4294967296 - 2147483648"

definition c_add :: "int \<Rightarrow> int \<Rightarrow> int" where
  "c_add a b = i32 (a + b)"

definition c_sub :: "int \<Rightarrow> int \<Rightarrow> int" where
  "c_sub a b = i32 (a - b)"

definition c_mul :: "int \<Rightarrow> int \<Rightarrow> int" where
  "c_mul a b = i32 (a * b)"

text \<open>
  C's \<^verbatim>\<open>/\<close> and \<^verbatim>\<open>%\<close> truncate towards zero. They have no result for a zero divisor
  and for \<^verbatim>\<open>INT_MIN\<close> divided by -1, where the processor traps.
\<close>

definition c_div :: "int \<Rightarrow> int \<Rightarrow> int option" where
  "c_div a b =
     (if b = 0 \<or> (a = - 2147483648 \<and> b = - 1) then None else Some (a sdiv b))"

definition c_mod :: "int \<Rightarrow> int \<Rightarrow> int option" where
  "c_mod a b =
     (if b = 0 \<or> (a = - 2147483648 \<and> b = - 1) then None else Some (a smod b))"

definition mpi :: "GTMatrix \<Rightarrow> mpi_call list \<Rightarrow> GTMatrix" where
  "mpi gtm calls = gtm\<lparr>mpi_calls := mpi_calls gtm @ calls\<rparr>"

section \<open>GTM\_updateBlockToProcess\<close>

text \<open>
  The macro \<^verbatim>\<open>MPI_DT_SB_DIM_MAX\<close> comes from a header the file includes; it is the
  first parameter of every function of the model that reads it.
\<close>

text \<open>
  Modelled from the spec: the size of the tables \<^verbatim>\<open>sb_stride\<close> and \<^verbatim>\<open>sb_nostride\<close>,
  which are filled when the matrix is created, outside GTMatrix\_Update.c. The spec says
  the cache is "indexed by (row_num - 1, col_num - 1)" and "built once at
  matrix-creation time for all combinations up to the bound": the tables have
  \<^verbatim>\<open>MPI_DT_SB_DIM_MAX\<close> squared entries, and reading any other index is an out-of-range
  read.
\<close>

definition sb_index_ok :: "int \<Rightarrow> int \<Rightarrow> bool" where
  "sb_index_ok MPI_DT_SB_DIM_MAX block_dt_id \<longleftrightarrow>
     0 \<le> block_dt_id \<and> block_dt_id < MPI_DT_SB_DIM_MAX * MPI_DT_SB_DIM_MAX"

definition GTM_updateBlockToProcess ::
  "int \<Rightarrow> GTMatrix \<Rightarrow> int \<Rightarrow> mpi_op \<Rightarrow> int \<Rightarrow> int \<Rightarrow> int \<Rightarrow> int \<Rightarrow> int \<Rightarrow> int
     \<Rightarrow> (retval \<times> GTMatrix) option" where
  "GTM_updateBlockToProcess MPI_DT_SB_DIM_MAX gtm dst_rank opr
       row_start row_num col_start col_num src_buf src_buf_ld =
   do {
     let row_end = c_add row_start row_num;
     let col_end = c_add col_start col_num;
     dst_rowblk \<leftarrow> c_div dst_rank (c_blocks gtm);
     dst_colblk \<leftarrow> c_mod dst_rank (c_blocks gtm);
     let dst_blk_ld = ld_local gtm;
     dst_row_start \<leftarrow> rd (r_displs gtm) dst_rowblk;
     dst_col_start \<leftarrow> rd (c_displs gtm) dst_colblk;
     dst_row_end \<leftarrow> rd (r_displs gtm) (c_add dst_rowblk 1);
     dst_col_end \<leftarrow> rd (c_displs gtm) (c_add dst_colblk 1);
     if row_start < dst_row_start \<or> col_start < dst_col_start \<or>
        row_end > dst_row_end \<or> col_end > dst_col_end \<or>
        c_mul row_num col_num = 0
     then Some (GTM_INVALID_BLOCK, gtm)
     else do {
       let dst_pos = c_mul (c_sub row_start dst_row_start) dst_blk_ld;
       let dst_pos = c_add dst_pos (c_sub col_start dst_col_start);
       if row_num \<le> MPI_DT_SB_DIM_MAX \<and> col_num \<le> MPI_DT_SB_DIM_MAX then do {
         let block_dt_id =
           c_add (c_mul (c_sub row_num 1) MPI_DT_SB_DIM_MAX) (c_sub col_num 1);
         let dst_dt = Sb_stride block_dt_id;
         if \<not> sb_index_ok MPI_DT_SB_DIM_MAX block_dt_id then None
         else if col_num = src_buf_ld then do {
           let rcv_dt_ns = Sb_nostride block_dt_id;
           Some (GTM_SUCCESS, mpi gtm
             [MPI_Accumulate src_buf rcv_dt_ns dst_rank dst_pos dst_dt opr])
         } else if ld_local gtm = src_buf_ld then
           Some (GTM_SUCCESS, mpi gtm
             [MPI_Accumulate src_buf dst_dt dst_rank dst_pos dst_dt opr])
         else do {
           let rcv_dt = Vector_dt row_num col_num src_buf_ld;
           Some (GTM_SUCCESS, mpi gtm
             [MPI_Type_vector row_num col_num src_buf_ld,
              MPI_Type_commit rcv_dt,
              MPI_Accumulate src_buf rcv_dt dst_rank dst_pos dst_dt opr,
              MPI_Type_free rcv_dt])
         }
       } else do {
         let dst_dt = Vector_dt row_num col_num dst_blk_ld;
         let rcv_dt = Vector_dt row_num col_num src_buf_ld;
         Some (GTM_SUCCESS, mpi gtm
           [MPI_Type_vector row_num col_num dst_blk_ld,
            MPI_Type_vector row_num col_num src_buf_ld,
            MPI_Type_commit dst_dt,
            MPI_Type_commit rcv_dt,
            MPI_Accumulate src_buf rcv_dt dst_rank dst_pos dst_dt opr,
            MPI_Type_free dst_dt,
            MPI_Type_free rcv_dt])
       }
     }
   }"

section \<open>Collaborators that are not part of GTMatrix\_Update.c\<close>

text \<open>
  Modelled from the spec: \<^verbatim>\<open>getRectIntersection\<close>, called at line 145, is missing from
  the sources (the file includes utils.h). The spec says of it that the resolver must "intersect that destination's
  owned tile bounds with the requested rectangle" and that the intersection is non-empty
  or not. The arguments are two rectangles with inclusive bounds (first and last row,
  first and last column); the result is the flag \<^verbatim>\<open>need_to_fetch\<close> (1 iff the
  intersection is non-empty) and the inclusive bounds of the intersection.
\<close>

definition getRectIntersection ::
  "int \<Rightarrow> int \<Rightarrow> int \<Rightarrow> int \<Rightarrow> int \<Rightarrow> int \<Rightarrow> int \<Rightarrow> int \<Rightarrow> int \<times> int \<times> int \<times> int \<times> int" where
  "getRectIntersection xs0 xe0 ys0 ye0 xs1 xe1 ys1 ye1 =
     (let ixs = max xs0 xs1; ixe = min xe0 xe1;
          iys = max ys0 ys1; iye = min ye0 ye1
      in ((if ixs \<le> ixe \<and> iys \<le> iye then 1 else 0), ixs, ixe, iys, iye))"

text \<open>
  Modelled from the spec: \<^verbatim>\<open>GTM_pushToReqVector\<close> and \<^verbatim>\<open>GTM_resetReqVector\<close>, called
  at lines 188, 209 and 247, are missing from the sources. The spec names them
  \<open>queue.push\<close> and \<open>queue.reset\<close>, "batched-mode storage": push "appends a
  fully-resolved DestinationSubUpdate (operator, sub-rectangle, source pointer, source
  stride) to that destination's queue" and returns a result code; reset clears the queue.
\<close>

definition GTM_pushToReqVector ::
  "request list \<Rightarrow> mpi_op \<Rightarrow> int \<Rightarrow> int \<Rightarrow> int \<Rightarrow> int \<Rightarrow> int \<Rightarrow> int \<Rightarrow> retval \<times> request list" where
  "GTM_pushToReqVector vec opr row_start row_num col_start col_num src_buf src_buf_ld =
     (GTM_SUCCESS,
      vec @ [\<lparr>req_op = opr, req_row_start = row_start, req_row_num = row_num,
              req_col_start = col_start, req_col_num = col_num,
              req_src_buf = src_buf, req_src_buf_ld = src_buf_ld\<rparr>])"

definition GTM_resetReqVector :: "request list \<Rightarrow> request list" where
  "GTM_resetReqVector vec = []"

text \<open>
  Modelled from the spec: \<^verbatim>\<open>GTM_waitNB\<close>, called at line 182, is missing from the
  sources. The spec names it \<open>flushOutstanding\<close>: "wait for completion of all
  outstanding operations against every destination with a nonzero counter, release every
  held epoch, and reset all counters to zero". The epochs the non-blocking protocol
  holds are those of the destinations with a nonzero counter; they are released in rank
  order. \<^verbatim>\<open>nb_op_proc_cnt\<close> has one counter for each of the \<^verbatim>\<open>comm_size\<close> processes.
\<close>

definition GTM_waitNB :: "GTMatrix \<Rightarrow> GTMatrix" where
  "GTM_waitNB gtm =
     (mpi gtm (map MPI_Win_unlock
                 (filter (\<lambda>i. nb_op_proc_cnt gtm ! nat i \<noteq> 0) [0 .. comm_size gtm - 1])))
       \<lparr>nb_op_proc_cnt := map (\<lambda>_. 0) (nb_op_proc_cnt gtm), nb_op_cnt := 0\<rparr>"

section \<open>GTM\_updateBlock\<close>

subsection \<open>The block search (lines 116 to 132)\<close>

text \<open>The test \<^verbatim>\<open>(displs[i] <= x) && (x < displs[i+1])\<close>, with C's short circuit.\<close>

definition in_blk :: "int list \<Rightarrow> int \<Rightarrow> int \<Rightarrow> bool option" where
  "in_blk displs i x =
     do {
       lo \<leftarrow> rd displs i;
       if lo \<le> x then do { hi \<leftarrow> rd displs (i + 1); Some (x < hi) } else Some False
     }"

text \<open>
  One search loop, for the rows or for the columns: \<open>i\<close> is the loop counter,
  \<open>s_blk\<close> and \<open>e_blk\<close> the block indices found so far.
\<close>

function find_blk ::
  "int list \<Rightarrow> int \<Rightarrow> int \<Rightarrow> int \<Rightarrow> int \<Rightarrow> int \<Rightarrow> int \<Rightarrow> (int \<times> int) option" where
  "find_blk displs blocks x_start x_end i s_blk e_blk =
     (if i < blocks then
        do {
          c_s \<leftarrow> in_blk displs i x_start;
          c_e \<leftarrow> in_blk displs i x_end;
          find_blk displs blocks x_start x_end (i + 1)
            (if c_s then i else s_blk) (if c_e then i else e_blk)
        }
      else Some (s_blk, e_blk))"
  by pat_completeness auto
termination
  by (relation "measure (\<lambda>(displs, blocks, x_start, x_end, i, s_blk, e_blk). nat (blocks - i))")
     auto

declare find_blk.simps [simp del]

subsection \<open>The loop nest over the destinations (lines 136 to 196)\<close>


type_synonym 's dst_action = "int \<Rightarrow> int \<Rightarrow> int \<Rightarrow> int \<Rightarrow> int \<Rightarrow> 's \<Rightarrow> (retval \<times> 's) option"

function update_cols ::
  "'s dst_action \<Rightarrow> GTMatrix \<Rightarrow> int \<Rightarrow> int \<Rightarrow> int \<Rightarrow> int \<Rightarrow> int \<Rightarrow> int \<Rightarrow> int \<Rightarrow> int \<Rightarrow> int
     \<Rightarrow> 's \<Rightarrow> (retval \<times> 's) option" where
  "update_cols body geo row_start row_end col_start col_end blk_r dst_r_s dst_r_e
       e_blk_c blk_c st =
     (if blk_c \<le> e_blk_c then
        do {
          dst_c_s \<leftarrow> rd (c_displs geo) blk_c;
          dst_c_n \<leftarrow> rd (c_displs geo) (blk_c + 1);
          let dst_c_e = c_sub dst_c_n 1;
          let dst_rank = c_add (c_mul blk_r (c_blocks geo)) blk_c;
          let (need_to_fetch, blk_r_s, blk_r_e, blk_c_s, blk_c_e) =
            getRectIntersection dst_r_s dst_r_e dst_c_s dst_c_e
              row_start row_end col_start col_end;
          if need_to_fetch \<noteq> 1 then None
          else do {
            let blk_r_num = c_add (c_sub blk_r_e blk_r_s) 1;
            let blk_c_num = c_add (c_sub blk_c_e blk_c_s) 1;
            (ret, st') \<leftarrow> body dst_rank blk_r_s blk_r_num blk_c_s blk_c_num st;
            if ret \<noteq> GTM_SUCCESS then Some (ret, st')
            else update_cols body geo row_start row_end col_start col_end
                   blk_r dst_r_s dst_r_e e_blk_c (blk_c + 1) st'
          }
        }
      else Some (GTM_SUCCESS, st))"
  by pat_completeness auto
termination
  by (relation "measure (\<lambda>(body, geo, row_start, row_end, col_start, col_end, blk_r,
        dst_r_s, dst_r_e, e_blk_c, blk_c, st). nat (e_blk_c + 1 - blk_c))")
     auto

declare update_cols.simps [simp del]

function update_rows ::
  "'s dst_action \<Rightarrow> GTMatrix \<Rightarrow> int \<Rightarrow> int \<Rightarrow> int \<Rightarrow> int \<Rightarrow> int \<Rightarrow> int \<Rightarrow> int \<Rightarrow> int
     \<Rightarrow> 's \<Rightarrow> (retval \<times> 's) option" where
  "update_rows body geo row_start row_end col_start col_end s_blk_c e_blk_c
       e_blk_r blk_r st =
     (if blk_r \<le> e_blk_r then
        do {
          dst_r_s \<leftarrow> rd (r_displs geo) blk_r;
          dst_r_n \<leftarrow> rd (r_displs geo) (blk_r + 1);
          let dst_r_e = c_sub dst_r_n 1;
          (ret, st') \<leftarrow> update_cols body geo row_start row_end col_start col_end
                          blk_r dst_r_s dst_r_e e_blk_c s_blk_c st;
          if ret \<noteq> GTM_SUCCESS then Some (ret, st')
          else update_rows body geo row_start row_end col_start col_end s_blk_c e_blk_c
                 e_blk_r (blk_r + 1) st'
        }
      else Some (GTM_SUCCESS, st))"
  by pat_completeness auto
termination
  by (relation "measure (\<lambda>(body, geo, row_start, row_end, col_start, col_end, s_blk_c,
        e_blk_c, e_blk_r, blk_r, st). nat (e_blk_r + 1 - blk_r))")
     auto

declare update_rows.simps [simp del]

text \<open>Lines 116 to 197: both searches, then the loop nest.\<close>

definition update_loops ::
  "'s dst_action \<Rightarrow> GTMatrix \<Rightarrow> int \<Rightarrow> int \<Rightarrow> int \<Rightarrow> int \<Rightarrow> 's \<Rightarrow> (retval \<times> 's) option" where
  "update_loops body geo row_start row_num col_start col_num st =
     do {
       let row_end = c_sub (c_add row_start row_num) 1;
       let col_end = c_sub (c_add col_start col_num) 1;
       (s_blk_r, e_blk_r) \<leftarrow>
         find_blk (r_displs geo) (r_blocks geo) row_start row_end 0 0 (- 1);
       (s_blk_c, e_blk_c) \<leftarrow>
         find_blk (c_displs geo) (c_blocks geo) col_start col_end 0 0 (- 1);
       update_rows body geo row_start row_end col_start col_end s_blk_c e_blk_c
         e_blk_r s_blk_r st
     }"

subsection \<open>The three access modes (lines 158 to 192)\<close>

definition update_blocking ::
  "int \<Rightarrow> GTMatrix \<Rightarrow> int \<Rightarrow> mpi_op \<Rightarrow> int \<Rightarrow> int \<Rightarrow> int \<Rightarrow> int \<Rightarrow> int \<Rightarrow> int
     \<Rightarrow> (retval \<times> GTMatrix) option" where
  "update_blocking MPI_DT_SB_DIM_MAX gtm dst_rank opr blk_r_s blk_r_num blk_c_s blk_c_num
       blk_ptr src_buf_ld =
     do {
       let gtm = mpi gtm [MPI_Win_lock (acc_lock_type gtm) dst_rank];
       (ret, gtm) \<leftarrow> GTM_updateBlockToProcess MPI_DT_SB_DIM_MAX gtm dst_rank opr
                       blk_r_s blk_r_num blk_c_s blk_c_num blk_ptr src_buf_ld;
       Some (ret, mpi gtm [MPI_Win_unlock dst_rank])
     }"

text \<open>Lines 172 to 181: the lock, the transfer and the two counters.\<close>

definition nb_issue ::
  "int \<Rightarrow> GTMatrix \<Rightarrow> int \<Rightarrow> mpi_op \<Rightarrow> int \<Rightarrow> int \<Rightarrow> int \<Rightarrow> int \<Rightarrow> int \<Rightarrow> int
     \<Rightarrow> (retval \<times> GTMatrix) option" where
  "nb_issue MPI_DT_SB_DIM_MAX gtm dst_rank opr blk_r_s blk_r_num blk_c_s blk_c_num
       blk_ptr src_buf_ld =
     do {
       cnt \<leftarrow> rd (nb_op_proc_cnt gtm) dst_rank;
       let gtm = (if cnt = 0 then mpi gtm [MPI_Win_lock (acc_lock_type gtm) dst_rank]
                  else gtm);
       (ret, gtm) \<leftarrow> GTM_updateBlockToProcess MPI_DT_SB_DIM_MAX gtm dst_rank opr
                       blk_r_s blk_r_num blk_c_s blk_c_num blk_ptr src_buf_ld;
       cnt \<leftarrow> rd (nb_op_proc_cnt gtm) dst_rank;
       cnts \<leftarrow> wr (nb_op_proc_cnt gtm) dst_rank (cnt + 1);
       let gtm = gtm\<lparr>nb_op_proc_cnt := cnts\<rparr>;
       let gtm = gtm\<lparr>nb_op_cnt := nb_op_cnt gtm + 1\<rparr>;
       Some (ret, gtm)
     }"

text \<open>Line 182: the flush once the global counter has reached \<^verbatim>\<open>max_nb_acc\<close>.\<close>

definition nb_throttle :: "GTMatrix \<Rightarrow> GTMatrix" where
  "nb_throttle gtm = (if nb_op_cnt gtm \<ge> max_nb_acc gtm then GTM_waitNB gtm else gtm)"

definition update_nonblocking ::
  "int \<Rightarrow> GTMatrix \<Rightarrow> int \<Rightarrow> mpi_op \<Rightarrow> int \<Rightarrow> int \<Rightarrow> int \<Rightarrow> int \<Rightarrow> int \<Rightarrow> int
     \<Rightarrow> (retval \<times> GTMatrix) option" where
  "update_nonblocking MPI_DT_SB_DIM_MAX gtm dst_rank opr blk_r_s blk_r_num blk_c_s blk_c_num
       blk_ptr src_buf_ld =
     do {
       (ret, gtm) \<leftarrow> nb_issue MPI_DT_SB_DIM_MAX gtm dst_rank opr
                       blk_r_s blk_r_num blk_c_s blk_c_num blk_ptr src_buf_ld;
       Some (ret, nb_throttle gtm)
     }"

definition update_batch ::
  "GTMatrix \<Rightarrow> int \<Rightarrow> mpi_op \<Rightarrow> int \<Rightarrow> int \<Rightarrow> int \<Rightarrow> int \<Rightarrow> int \<Rightarrow> int
     \<Rightarrow> (retval \<times> GTMatrix) option" where
  "update_batch gtm dst_rank opr blk_r_s blk_r_num blk_c_s blk_c_num blk_ptr src_buf_ld =
     do {
       vec \<leftarrow> rd (req_vec gtm) dst_rank;
       let (ret, vec) = GTM_pushToReqVector vec opr blk_r_s blk_r_num blk_c_s blk_c_num
                          blk_ptr src_buf_ld;
       vecs \<leftarrow> wr (req_vec gtm) dst_rank vec;
       Some (ret, gtm\<lparr>req_vec := vecs\<rparr>)
     }"

text \<open>
  Lines 153 to 192, the body of the inner loop after the intersection: the address of
  the sub-block in the source buffer, then the access mode. The offset of line 156 is
  computed in \<^verbatim>\<open>int\<close> and then added to the pointer. The type \<open>access_mode\<close> has the
  three modes the wrappers pass, so exactly one branch runs.
\<close>

definition update_dst ::
  "int \<Rightarrow> mpi_op \<Rightarrow> int \<Rightarrow> int \<Rightarrow> int \<Rightarrow> int \<Rightarrow> access_mode \<Rightarrow> GTMatrix dst_action" where
  "update_dst MPI_DT_SB_DIM_MAX opr row_start col_start src_buf src_buf_ld access_mode
       dst_rank blk_r_s blk_r_num blk_c_s blk_c_num gtm =
     (let row_dist = c_sub blk_r_s row_start;
          col_dist = c_sub blk_c_s col_start;
          blk_ptr = src_buf + c_mul (c_add (c_mul row_dist src_buf_ld) col_dist) (unit_size gtm)
      in case access_mode of
           BLOCKING_ACCESS \<Rightarrow>
             update_blocking MPI_DT_SB_DIM_MAX gtm dst_rank opr
               blk_r_s blk_r_num blk_c_s blk_c_num blk_ptr src_buf_ld
         | NONBLOCKING_ACCESS \<Rightarrow>
             update_nonblocking MPI_DT_SB_DIM_MAX gtm dst_rank opr
               blk_r_s blk_r_num blk_c_s blk_c_num blk_ptr src_buf_ld
         | BATCH_ACCESS \<Rightarrow>
             update_batch gtm dst_rank opr
               blk_r_s blk_r_num blk_c_s blk_c_num blk_ptr src_buf_ld)"

subsection \<open>The function\<close>

definition GTM_updateBlock ::
  "int \<Rightarrow> GTMatrix option \<Rightarrow> mpi_op \<Rightarrow> int \<Rightarrow> int \<Rightarrow> int \<Rightarrow> int \<Rightarrow> int \<Rightarrow> int \<Rightarrow> access_mode
     \<Rightarrow> (retval \<times> GTMatrix option) option" where
  "GTM_updateBlock MPI_DT_SB_DIM_MAX h opr row_start row_num col_start col_num
       src_buf src_buf_ld access_mode =
     (case h of
        None \<Rightarrow> Some (GTM_NULL_PTR, None)
      | Some gtm \<Rightarrow>
          if row_start < 0 \<or> col_start < 0 \<or>
             c_add row_start row_num > nrows gtm \<or>
             c_add col_start col_num > ncols gtm \<or>
             c_mul row_num col_num = 0
          then Some (GTM_INVALID_BLOCK, Some gtm)
          else do {
            (ret, gtm) \<leftarrow>
              update_loops
                (update_dst MPI_DT_SB_DIM_MAX opr row_start col_start src_buf src_buf_ld
                   access_mode)
                gtm row_start row_num col_start col_num gtm;
            Some (ret, Some gtm)
          })"



section \<open>The batch epoch\<close>

text \<open>The loop of \<^verbatim>\<open>GTM_startBatchUpdate\<close> (lines 208 and 209).\<close>

function reset_vecs :: "GTMatrix \<Rightarrow> int \<Rightarrow> GTMatrix option" where
  "reset_vecs gtm i =
     (if i < comm_size gtm then
        do {
          vec \<leftarrow> rd (req_vec gtm) i;
          vecs \<leftarrow> wr (req_vec gtm) i (GTM_resetReqVector vec);
          reset_vecs (gtm\<lparr>req_vec := vecs\<rparr>) (i + 1)
        }
      else Some gtm)"
  by pat_completeness auto
termination
  by (relation "measure (\<lambda>(gtm, i). nat (comm_size gtm - i))") auto

declare reset_vecs.simps [simp del]

definition GTM_startBatchUpdate :: "GTMatrix option \<Rightarrow> (retval \<times> GTMatrix option) option" where
  "GTM_startBatchUpdate h =
     (case h of
        None \<Rightarrow> Some (GTM_NULL_PTR, None)
      | Some gtm \<Rightarrow>
          if in_batch_get gtm \<noteq> 0 then Some (GTM_IN_BATCHED_GET, Some gtm)
          else if in_batch_put gtm \<noteq> 0 then Some (GTM_IN_BATCHED_PUT, Some gtm)
          else if in_batch_acc gtm \<noteq> 0 then Some (GTM_IN_BATCHED_ACC, Some gtm)
          else do {
            gtm \<leftarrow> reset_vecs gtm 0;
            let gtm = gtm\<lparr>in_batch_put := 1\<rparr>;
            let gtm = gtm\<lparr>in_batch_acc := 1\<rparr>;
            Some (GTM_SUCCESS, Some gtm)
          })"

text \<open>
  The replay loop of \<^verbatim>\<open>GTM_execBatchUpdate\<close> (lines 229 to 243) over the request vector
  \<open>vec\<close> of \<open>dst_rank\<close>; \<^verbatim>\<open>curr_size\<close> is the length of \<open>vec\<close>.
\<close>

function replay :: "int \<Rightarrow> GTMatrix \<Rightarrow> int \<Rightarrow> request list \<Rightarrow> int \<Rightarrow> (retval \<times> GTMatrix) option" where
  "replay MPI_DT_SB_DIM_MAX gtm dst_rank vec i =
     (if i < int (length vec) then
        do {
          r \<leftarrow> rd vec i;
          (ret, gtm) \<leftarrow> GTM_updateBlockToProcess MPI_DT_SB_DIM_MAX gtm dst_rank (req_op r)
                          (req_row_start r) (req_row_num r) (req_col_start r) (req_col_num r)
                          (req_src_buf r) (req_src_buf_ld r);
          if ret \<noteq> GTM_SUCCESS then Some (ret, gtm)
          else replay MPI_DT_SB_DIM_MAX gtm dst_rank vec (i + 1)
        }
      else Some (GTM_SUCCESS, gtm))"
  by pat_completeness auto
termination
  by (relation "measure (\<lambda>(m, gtm, dst_rank, vec, i). nat (int (length vec) - i))") auto

declare replay.simps [simp del]

text \<open>
  Lines 223 to 247, one destination. The result \<open>(ret, returned, gtm)\<close> says whether
  line 242 has returned \<open>ret\<close> from the function.
\<close>

definition exec_dst :: "int \<Rightarrow> GTMatrix \<Rightarrow> int \<Rightarrow> (retval \<times> bool \<times> GTMatrix) option" where
  "exec_dst MPI_DT_SB_DIM_MAX gtm dst_rank' =
     do {
       dst_rank \<leftarrow> c_mod dst_rank' (comm_size gtm);
       vec \<leftarrow> rd (req_vec gtm) dst_rank;
       (ret, returned, gtm) \<leftarrow>
         (if int (length vec) > 0 then
            do {
              let gtm = mpi gtm [MPI_Win_lock (acc_lock_type gtm) dst_rank];
              (ret, gtm) \<leftarrow> replay MPI_DT_SB_DIM_MAX gtm dst_rank vec 0;
              if ret \<noteq> GTM_SUCCESS then Some (ret, True, gtm)
              else Some (GTM_SUCCESS, False, mpi gtm [MPI_Win_unlock dst_rank])
            }
          else Some (GTM_SUCCESS, False, gtm));
       if returned then Some (ret, True, gtm)
       else do {
         vecs \<leftarrow> wr (req_vec gtm) dst_rank (GTM_resetReqVector vec);
         Some (GTM_SUCCESS, False, gtm\<lparr>req_vec := vecs\<rparr>)
       }
     }"

text \<open>
  The loop over the destinations (line 221). No call changes \<^verbatim>\<open>comm_size\<close> or
  \<^verbatim>\<open>my_rank\<close>, which is why the loop ends.
\<close>

function exec_dsts :: "int \<Rightarrow> GTMatrix \<Rightarrow> int \<Rightarrow> (retval \<times> GTMatrix) option" where
  "exec_dsts MPI_DT_SB_DIM_MAX gtm dst_rank' =
     (if dst_rank' < c_add (comm_size gtm) (my_rank gtm) then
        do {
          (ret, returned, gtm) \<leftarrow> exec_dst MPI_DT_SB_DIM_MAX gtm dst_rank';
          if returned then Some (ret, gtm)
          else exec_dsts MPI_DT_SB_DIM_MAX gtm (dst_rank' + 1)
        }
      else Some (GTM_SUCCESS, gtm))"
  by pat_completeness auto
termination
proof (relation "measure (\<lambda>(m, gtm, d). nat (c_add (comm_size gtm) (my_rank gtm) - d))",
    goal_cases)
  case 1
  show ?case by simp
next
  case (2 m gtm d x ret z returned g')
  have ubp: "comm_size h' = comm_size h \<and> my_rank h' = my_rank h"
    if "GTM_updateBlockToProcess n h k opr a b c e p l = Some (r, h')"
    for n h h' k opr a b c e p l r
    using that unfolding GTM_updateBlockToProcess_def Let_def mpi_def
    by (auto split: bind_splits if_splits)
  have rep: "comm_size h' = comm_size h \<and> my_rank h' = my_rank h"
    if "replay n h k vec i = Some (r, h')" for n h h' k vec i r
    using that
  proof (induction n h k vec i rule: replay.induct)
    case (1 n h k vec i)
    show ?case
    proof (cases "i < int (length vec)")
      case True
      with "1.prems" obtain q r1 h1 where
        q: "rd vec i = Some q" and
        u: "GTM_updateBlockToProcess n h k (req_op q) (req_row_start q) (req_row_num q)
              (req_col_start q) (req_col_num q) (req_src_buf q) (req_src_buf_ld q)
            = Some (r1, h1)" and
        r: "(if r1 \<noteq> GTM_SUCCESS then Some (r1, h1) else replay n h1 k vec (i + 1))
            = Some (r, h')"
        by (subst (asm) replay.simps) (auto split: bind_splits)
      show ?thesis
      proof (cases "r1 = GTM_SUCCESS")
        case True
        with r have "replay n h1 k vec (i + 1) = Some (r, h')" by simp
        from "1.IH" [OF \<open>i < int (length vec)\<close> q u refl _ this] True ubp [OF u]
        show ?thesis by simp
      next
        case False
        with r ubp [OF u] show ?thesis by simp
      qed
    next
      case False
      with "1.prems" show ?thesis by (subst (asm) replay.simps) simp
    qed
  qed
  from 2 have e: "exec_dst m gtm d = Some (ret, False, g')" by auto
  have "comm_size g' = comm_size gtm \<and> my_rank g' = my_rank gtm"
    using e unfolding exec_dst_def Let_def mpi_def
    by (auto split: bind_splits if_splits dest!: rep)
  with 2 show ?case by simp
qed

declare exec_dsts.simps [simp del]

text \<open>\<^verbatim>\<open>GTM_execBatchUpdate\<close> reads \<^verbatim>\<open>gtm->in_batch_put\<close> without a NULL test.\<close>

definition GTM_execBatchUpdate :: "int \<Rightarrow> GTMatrix option \<Rightarrow> (retval \<times> GTMatrix option) option" where
  "GTM_execBatchUpdate MPI_DT_SB_DIM_MAX h =
     (case h of
        None \<Rightarrow> None
      | Some gtm \<Rightarrow>
          if in_batch_put gtm = 0 then Some (GTM_NO_BATCHED_PUT, Some gtm)
          else if in_batch_acc gtm = 0 then Some (GTM_NO_BATCHED_ACC, Some gtm)
          else do {
            (ret, gtm) \<leftarrow> exec_dsts MPI_DT_SB_DIM_MAX gtm (my_rank gtm);
            Some (ret, Some gtm)
          })"

definition GTM_stopBatchUpdate :: "GTMatrix option \<Rightarrow> (retval \<times> GTMatrix option) option" where
  "GTM_stopBatchUpdate h =
     (case h of
        None \<Rightarrow> Some (GTM_NULL_PTR, None)
      | Some gtm \<Rightarrow>
          if in_batch_put gtm = 0 then Some (GTM_NO_BATCHED_PUT, Some gtm)
          else if in_batch_acc gtm = 0 then Some (GTM_NO_BATCHED_ACC, Some gtm)
          else do {
            let gtm = gtm\<lparr>in_batch_put := 0\<rparr>;
            let gtm = gtm\<lparr>in_batch_acc := 0\<rparr>;
            Some (GTM_SUCCESS, Some gtm)
          })"

section \<open>The wrappers\<close>

text \<open>
  The macro \<^verbatim>\<open>GTM_PARAM\<close> stands for the parameters the wrappers pass on: \<^verbatim>\<open>gtm\<close>,
  \<^verbatim>\<open>row_start\<close>, \<^verbatim>\<open>row_num\<close>, \<^verbatim>\<open>col_start\<close>, \<^verbatim>\<open>col_num\<close>, \<^verbatim>\<open>src_buf\<close>,
  \<^verbatim>\<open>src_buf_ld\<close>.
\<close>

definition GTM_putBlock ::
  "int \<Rightarrow> GTMatrix option \<Rightarrow> int \<Rightarrow> int \<Rightarrow> int \<Rightarrow> int \<Rightarrow> int \<Rightarrow> int
     \<Rightarrow> (retval \<times> GTMatrix option) option" where
  "GTM_putBlock MPI_DT_SB_DIM_MAX h row_start row_num col_start col_num src_buf src_buf_ld =
     (if h = None then Some (GTM_NULL_PTR, None)
      else GTM_updateBlock MPI_DT_SB_DIM_MAX h MPI_REPLACE row_start row_num
             col_start col_num src_buf src_buf_ld BLOCKING_ACCESS)"

definition GTM_accBlock ::
  "int \<Rightarrow> GTMatrix option \<Rightarrow> int \<Rightarrow> int \<Rightarrow> int \<Rightarrow> int \<Rightarrow> int \<Rightarrow> int
     \<Rightarrow> (retval \<times> GTMatrix option) option" where
  "GTM_accBlock MPI_DT_SB_DIM_MAX h row_start row_num col_start col_num src_buf src_buf_ld =
     (if h = None then Some (GTM_NULL_PTR, None)
      else GTM_updateBlock MPI_DT_SB_DIM_MAX h MPI_SUM row_start row_num
             col_start col_num src_buf src_buf_ld BLOCKING_ACCESS)"

definition GTM_putBlockNB ::
  "int \<Rightarrow> GTMatrix option \<Rightarrow> int \<Rightarrow> int \<Rightarrow> int \<Rightarrow> int \<Rightarrow> int \<Rightarrow> int
     \<Rightarrow> (retval \<times> GTMatrix option) option" where
  "GTM_putBlockNB MPI_DT_SB_DIM_MAX h row_start row_num col_start col_num src_buf src_buf_ld =
     (if h = None then Some (GTM_NULL_PTR, None)
      else GTM_updateBlock MPI_DT_SB_DIM_MAX h MPI_REPLACE row_start row_num
             col_start col_num src_buf src_buf_ld NONBLOCKING_ACCESS)"

definition GTM_accBlockNB ::
  "int \<Rightarrow> GTMatrix option \<Rightarrow> int \<Rightarrow> int \<Rightarrow> int \<Rightarrow> int \<Rightarrow> int \<Rightarrow> int
     \<Rightarrow> (retval \<times> GTMatrix option) option" where
  "GTM_accBlockNB MPI_DT_SB_DIM_MAX h row_start row_num col_start col_num src_buf src_buf_ld =
     (if h = None then Some (GTM_NULL_PTR, None)
      else GTM_updateBlock MPI_DT_SB_DIM_MAX h MPI_SUM row_start row_num
             col_start col_num src_buf src_buf_ld NONBLOCKING_ACCESS)"

definition GTM_addPutBlockRequest ::
  "int \<Rightarrow> GTMatrix option \<Rightarrow> int \<Rightarrow> int \<Rightarrow> int \<Rightarrow> int \<Rightarrow> int \<Rightarrow> int
     \<Rightarrow> (retval \<times> GTMatrix option) option" where
  "GTM_addPutBlockRequest MPI_DT_SB_DIM_MAX h row_start row_num col_start col_num
       src_buf src_buf_ld =
     (if h = None then Some (GTM_NULL_PTR, None)
      else GTM_updateBlock MPI_DT_SB_DIM_MAX h MPI_REPLACE row_start row_num
             col_start col_num src_buf src_buf_ld BATCH_ACCESS)"

definition GTM_addAccBlockRequest ::
  "int \<Rightarrow> GTMatrix option \<Rightarrow> int \<Rightarrow> int \<Rightarrow> int \<Rightarrow> int \<Rightarrow> int \<Rightarrow> int
     \<Rightarrow> (retval \<times> GTMatrix option) option" where
  "GTM_addAccBlockRequest MPI_DT_SB_DIM_MAX h row_start row_num col_start col_num
       src_buf src_buf_ld =
     (if h = None then Some (GTM_NULL_PTR, None)
      else GTM_updateBlock MPI_DT_SB_DIM_MAX h MPI_SUM row_start row_num
             col_start col_num src_buf src_buf_ld BATCH_ACCESS)"

definition GTM_startBatchPut :: "GTMatrix option \<Rightarrow> (retval \<times> GTMatrix option) option" where
  "GTM_startBatchPut h = GTM_startBatchUpdate h"

definition GTM_startBatchAcc :: "GTMatrix option \<Rightarrow> (retval \<times> GTMatrix option) option" where
  "GTM_startBatchAcc h = GTM_startBatchUpdate h"

definition GTM_execBatchPut :: "int \<Rightarrow> GTMatrix option \<Rightarrow> (retval \<times> GTMatrix option) option" where
  "GTM_execBatchPut MPI_DT_SB_DIM_MAX h = GTM_execBatchUpdate MPI_DT_SB_DIM_MAX h"

definition GTM_execBatchAcc :: "int \<Rightarrow> GTMatrix option \<Rightarrow> (retval \<times> GTMatrix option) option" where
  "GTM_execBatchAcc MPI_DT_SB_DIM_MAX h = GTM_execBatchUpdate MPI_DT_SB_DIM_MAX h"

definition GTM_stopBatchPut :: "GTMatrix option \<Rightarrow> (retval \<times> GTMatrix option) option" where
  "GTM_stopBatchPut h = GTM_stopBatchUpdate h"

definition GTM_stopBatchAcc :: "GTMatrix option \<Rightarrow> (retval \<times> GTMatrix option) option" where
  "GTM_stopBatchAcc h = GTM_stopBatchUpdate h"

section \<open>A concrete matrix\<close>

text \<open>
  The spec's scenario: a 4 by 4 matrix split 2 by 2 into four 2 by 2 tiles on four
  processes, seen from rank 1, idle, with no operation outstanding.
\<close>

definition gtm4 :: GTMatrix where
  "gtm4 = \<lparr>nrows = 4, ncols = 4, r_blocks = 2, c_blocks = 2,
            r_displs = [0, 2, 4], c_displs = [0, 2, 4],
            ld_local = 2, unit_size = 8, my_rank = 1, comm_size = 4,
            acc_lock_type = 1, nb_op_proc_cnt = [0, 0, 0, 0], nb_op_cnt = 0,
            max_nb_acc = 2, req_vec = [[], [], [], []],
            in_batch_get = 0, in_batch_put = 0, in_batch_acc = 0,
            mpi_calls = []\<rparr>"

section \<open>Well-formed handles\<close>

text \<open>
  A boundary table of \<open>blocks\<close> blocks over \<open>n\<close> rows or columns: \<open>blocks + 1\<close>
  entries, the first 0, the last \<open>n\<close>, strictly increasing, so that every block owns
  at least one row or column. (With a repeated entry some block is empty, and so is
  its intersection with any rectangle, which line 150 asserts not to happen.)
\<close>

definition displs_ok :: "int list \<Rightarrow> int \<Rightarrow> int \<Rightarrow> bool" where
  "displs_ok displs blocks n \<longleftrightarrow>
     0 < blocks \<and> int (length displs) = blocks + 1 \<and> sorted_wrt (<) displs \<and>
     hd displs = 0 \<and> last displs = n"

definition geometry_ok :: "GTMatrix \<Rightarrow> bool" where
  "geometry_ok gtm \<longleftrightarrow>
     displs_ok (r_displs gtm) (r_blocks gtm) (nrows gtm) \<and>
     displs_ok (c_displs gtm) (c_blocks gtm) (ncols gtm)"

text \<open>
  The dimensions of the matrix and the number of positions of the process grid are
  values of type \<^verbatim>\<open>int\<close>.
\<close>

definition ints_ok :: "GTMatrix \<Rightarrow> bool" where
  "ints_ok gtm \<longleftrightarrow>
     c_int (nrows gtm) \<and> c_int (ncols gtm) \<and> c_int (r_blocks gtm * c_blocks gtm)"

text \<open>Block \<open>j\<close> of a table holds the row or column \<open>x\<close>.\<close>

definition inb :: "int list \<Rightarrow> int \<Rightarrow> int \<Rightarrow> bool" where
  "inb displs j x \<longleftrightarrow> displs ! nat j \<le> x \<and> x < displs ! nat (j + 1)"

text \<open>
  The tile of a destination, as \<^verbatim>\<open>GTM_updateBlockToProcess\<close> reads it from the tables
  (lines 34 to 40): first row and the row after the last, first column and the column
  after the last. For a rank that is not negative C's \<^verbatim>\<open>/\<close> and \<^verbatim>\<open>%\<close> are \<open>div\<close> and
  \<open>mod\<close>.
\<close>

definition tile_rows :: "GTMatrix \<Rightarrow> int \<Rightarrow> int \<times> int" where
  "tile_rows gtm dst_rank =
     (r_displs gtm ! nat (dst_rank div c_blocks gtm),
      r_displs gtm ! nat (dst_rank div c_blocks gtm + 1))"

definition tile_cols :: "GTMatrix \<Rightarrow> int \<Rightarrow> int \<times> int" where
  "tile_cols gtm dst_rank =
     (c_displs gtm ! nat (dst_rank mod c_blocks gtm),
      c_displs gtm ! nat (dst_rank mod c_blocks gtm + 1))"

text \<open>
  The local region that stores the tile of a destination: its row stride \<^verbatim>\<open>ld_local\<close>
  is at least the width of the tile, and its number of elements, \<^verbatim>\<open>ld_local\<close> times the
  number of rows of the tile, is a value of type \<^verbatim>\<open>int\<close>, as every displacement into
  it is.
\<close>

definition local_ok :: "GTMatrix \<Rightarrow> int \<Rightarrow> bool" where
  "local_ok gtm dst_rank \<longleftrightarrow>
     snd (tile_cols gtm dst_rank) - fst (tile_cols gtm dst_rank) \<le> ld_local gtm \<and>
     c_int (ld_local gtm * (snd (tile_rows gtm dst_rank) - fst (tile_rows gtm dst_rank)))"

text \<open>The ranks of the process grid.\<close>

definition rank_ok :: "GTMatrix \<Rightarrow> int \<Rightarrow> bool" where
  "rank_ok gtm dst_rank \<longleftrightarrow> 0 \<le> dst_rank \<and> dst_rank < r_blocks gtm * c_blocks gtm"

text \<open>
  The transfer encoder as the spec words it (section 4.3, policy items 1 to 5): the
  MPI calls for one sub-rectangle of \<open>row_num\<close> by \<open>col_num\<close> elements, to be compared
  with what \<^verbatim>\<open>GTM_updateBlockToProcess\<close> issues.
\<close>

definition encoder_policy ::
  "int \<Rightarrow> int \<Rightarrow> int \<Rightarrow> mpi_op \<Rightarrow> int \<Rightarrow> int \<Rightarrow> int \<Rightarrow> int \<Rightarrow> int \<Rightarrow> mpi_call list" where
  "encoder_policy bound local_stride dst_rank opr row_num col_num src_buf src_stride offset =
     (if row_num \<le> bound \<and> col_num \<le> bound then
        (let cached = Sb_stride ((row_num - 1) * bound + (col_num - 1));
             cached_ns = Sb_nostride ((row_num - 1) * bound + (col_num - 1));
             one_off = Vector_dt row_num col_num src_stride
         in if col_num = src_stride then
              [MPI_Accumulate src_buf cached_ns dst_rank offset cached opr]
            else if local_stride = src_stride then
              [MPI_Accumulate src_buf cached dst_rank offset cached opr]
            else
              [MPI_Type_vector row_num col_num src_stride, MPI_Type_commit one_off,
               MPI_Accumulate src_buf one_off dst_rank offset cached opr,
               MPI_Type_free one_off])
      else
        (let dst_one_off = Vector_dt row_num col_num local_stride;
             src_one_off = Vector_dt row_num col_num src_stride
         in [MPI_Type_vector row_num col_num local_stride,
             MPI_Type_vector row_num col_num src_stride,
             MPI_Type_commit dst_one_off, MPI_Type_commit src_one_off,
             MPI_Accumulate src_buf src_one_off dst_rank offset dst_one_off opr,
             MPI_Type_free dst_one_off, MPI_Type_free src_one_off]))"

text \<open>A non-empty sub-rectangle that lies inside the tile of \<open>dst_rank\<close>.\<close>

definition in_tile :: "GTMatrix \<Rightarrow> int \<Rightarrow> int \<Rightarrow> int \<Rightarrow> int \<Rightarrow> int \<Rightarrow> bool" where
  "in_tile gtm dst_rank row_start row_num col_start col_num \<longleftrightarrow>
     0 < row_num \<and> 0 < col_num \<and>
     fst (tile_rows gtm dst_rank) \<le> row_start \<and>
     row_start + row_num \<le> snd (tile_rows gtm dst_rank) \<and>
     fst (tile_cols gtm dst_rank) \<le> col_start \<and>
     col_start + col_num \<le> snd (tile_cols gtm dst_rank)"



section \<open>The enumeration of the destinations\<close>






section \<open>Epochs\<close>

text \<open>
  The epochs a process holds after a sequence of MPI calls: \<^verbatim>\<open>MPI_Win_lock\<close> opens the
  epoch of its target rank, \<^verbatim>\<open>MPI_Win_unlock\<close> closes it, no other call changes them.
\<close>

fun is_sync :: "mpi_call \<Rightarrow> bool" where
  "is_sync (MPI_Win_lock lock_type rank) = True"
| "is_sync (MPI_Win_unlock rank) = True"
| "is_sync _ = False"




section \<open>The process group\<close>

text \<open>
  What \<^verbatim>\<open>GTM_execBatchUpdate\<close> needs of the handle: a group of at least one process,
  one request vector per process, and the caller's rank in the group.
\<close>

definition group_ok :: "GTMatrix \<Rightarrow> bool" where
  "group_ok gtm \<longleftrightarrow>
     0 < comm_size gtm \<and> int (length (req_vec gtm)) = comm_size gtm \<and>
     0 \<le> my_rank gtm \<and> my_rank gtm < comm_size gtm"

section \<open>The expected replay\<close>

text \<open>A queued request that lies inside the tile of the destination it is queued for.\<close>

definition req_ok :: "GTMatrix \<Rightarrow> int \<Rightarrow> request \<Rightarrow> bool" where
  "req_ok gtm dst_rank r \<longleftrightarrow>
     in_tile gtm dst_rank (req_row_start r) (req_row_num r) (req_col_start r) (req_col_num r)"

text \<open>The MPI calls of the transfer encoder for a queued request.\<close>

definition req_calls :: "int \<Rightarrow> GTMatrix \<Rightarrow> int \<Rightarrow> request \<Rightarrow> mpi_call list" where
  "req_calls bound gtm dst_rank r =
     encoder_policy bound (ld_local gtm) dst_rank (req_op r) (req_row_num r) (req_col_num r)
       (req_src_buf r) (req_src_buf_ld r)
       ((req_row_start r - fst (tile_rows gtm dst_rank)) * ld_local gtm +
        (req_col_start r - fst (tile_cols gtm dst_rank)))"

text \<open>
  What the replay for one destination is expected to call: nothing when its queue is
  empty, otherwise the lock, the transfers of the queued requests from the first to the
  last, and the unlock.
\<close>

definition dst_calls :: "int \<Rightarrow> GTMatrix \<Rightarrow> int \<Rightarrow> mpi_call list" where
  "dst_calls bound gtm dst_rank =
     (let queue = req_vec gtm ! nat dst_rank
      in if queue = [] then []
         else [MPI_Win_lock (acc_lock_type gtm) dst_rank] @
              concat (map (req_calls bound gtm dst_rank) queue) @
              [MPI_Win_unlock dst_rank])"

text \<open>The round-robin order: the \<open>n\<close> ranks starting at \<open>rank\<close>, wrapping around.\<close>

definition round_robin :: "int \<Rightarrow> int \<Rightarrow> int list" where
  "round_robin rank n = map (\<lambda>k. (rank + k) mod n) [0 .. n - 1]"

section \<open>More concrete handles\<close>

text \<open>The 4 by 4 matrix inside a batch epoch, and a put request from a buffer at 1000.\<close>

definition gtm4_batch :: GTMatrix where
  "gtm4_batch = gtm4\<lparr>in_batch_put := 1, in_batch_acc := 1\<rparr>"

definition req4 :: "int \<Rightarrow> int \<Rightarrow> int \<Rightarrow> int \<Rightarrow> request" where
  "req4 row_start row_num col_start col_num =
     \<lparr>req_op = MPI_REPLACE, req_row_start = row_start, req_row_num = row_num,
      req_col_start = col_start, req_col_num = col_num,
      req_src_buf = 1000, req_src_buf_ld = 2\<rparr>"






text \<open>
  Inside a batch epoch, seen from rank 1: two requests queued for rank 0, one for
  rank 2, none for ranks 1 and 3.
\<close>

definition gtm4_queued :: GTMatrix where
  "gtm4_queued = gtm4_batch\<lparr>req_vec := [[req4 0 2 0 2, req4 1 1 0 1], [], [req4 2 2 0 2], []]\<rparr>"


text \<open>
  A 65536 by 65536 matrix stored by one process: its dimensions are ints, its number
  of elements is not.
\<close>

definition gtm_big :: GTMatrix where
  "gtm_big = \<lparr>nrows = 65536, ncols = 65536, r_blocks = 1, c_blocks = 1,
               r_displs = [0, 65536], c_displs = [0, 65536],
               ld_local = 65536, unit_size = 8, my_rank = 0, comm_size = 1,
               acc_lock_type = 1, nb_op_proc_cnt = [0], nb_op_cnt = 0,
               max_nb_acc = 2, req_vec = [[]],
               in_batch_get = 0, in_batch_put = 0, in_batch_acc = 0,
               mpi_calls = []\<rparr>"

section \<open>Basic facts\<close>

lemma rd_Some: "0 \<le> i \<Longrightarrow> i < int (length xs) \<Longrightarrow> rd xs i = Some (xs ! nat i)"
  by (simp add: rd_def)

lemma mpi_Nil: "mpi gtm [] = gtm"
  by (simp add: mpi_def)

lemma mpi_mpi: "mpi (mpi gtm xs) ys = mpi gtm (xs @ ys)"
  by (simp add: mpi_def)

lemma in_blk_inb:
  "0 \<le> i \<Longrightarrow> i + 1 < int (length displs) \<Longrightarrow> in_blk displs i x = Some (inb displs i x)"
  by (simp add: in_blk_def inb_def rd_Some)

lemma displs_ok_less:
  assumes "displs_ok displs blocks n" "0 \<le> i" "i < j" "j \<le> blocks"
  shows "displs ! nat i < displs ! nat j"
proof -
  from assms have "nat i < nat j" "nat j < length displs"
    by (auto simp: displs_ok_def)
  with assms(1) show ?thesis
    by (auto simp: displs_ok_def sorted_wrt_iff_nth_less)
qed

lemma displs_ok_le:
  assumes "displs_ok displs blocks n" "0 \<le> i" "i \<le> j" "j \<le> blocks"
  shows "displs ! nat i \<le> displs ! nat j"
  using displs_ok_less [OF assms(1,2) _ assms(4)] assms(3)
  by (cases "i = j") auto

lemma displs_ok_first: "displs_ok displs blocks n \<Longrightarrow> displs ! nat 0 = 0"
  by (cases displs) (auto simp: displs_ok_def)

lemma displs_ok_last:
  assumes "displs_ok displs blocks n"
  shows "displs ! nat blocks = n"
proof -
  from assms have len: "length displs = nat blocks + 1"
    by (auto simp: displs_ok_def)
  then have "displs \<noteq> []" by auto
  then have "last displs = displs ! (length displs - 1)" by (rule last_conv_nth)
  with len assms show ?thesis by (simp add: displs_ok_def)
qed

subsection \<open>The block search finds the last block that holds the coordinate\<close>

lemma last_hit_step:
  fixes i n s s' :: int
  assumes "(\<forall>j. i \<le> j \<and> j < n \<longrightarrow> \<not> P j) \<and> s' = s \<or>
           i \<le> s' \<and> s' < n \<and> P s' \<and> (\<forall>j. s' < j \<and> j < n \<longrightarrow> \<not> P j)"
    and "i < n"
  shows "(\<forall>j. i + 1 \<le> j \<and> j < n \<longrightarrow> \<not> P j) \<and> s' = (if P i then i else s) \<or>
         i + 1 \<le> s' \<and> s' < n \<and> P s' \<and> (\<forall>j. s' < j \<and> j < n \<longrightarrow> \<not> P j)"
  using assms(1)
proof (elim disjE conjE)
  assume none: "\<forall>j. i \<le> j \<and> j < n \<longrightarrow> \<not> P j" and "s' = s"
  from none assms(2) have "\<not> P i" by simp
  moreover from none have "\<forall>j. i + 1 \<le> j \<and> j < n \<longrightarrow> \<not> P j" by simp
  ultimately show ?thesis using \<open>s' = s\<close> by simp
next
  assume h: "i \<le> s'" "s' < n" "P s'" "\<forall>j. s' < j \<and> j < n \<longrightarrow> \<not> P j"
  show ?thesis
  proof (cases "s' = i")
    case True
    with h have "\<forall>j. i + 1 \<le> j \<and> j < n \<longrightarrow> \<not> P j" by simp
    with True h show ?thesis by simp
  next
    case False
    with h have "i + 1 \<le> s'" by simp
    with h show ?thesis by simp
  qed
qed

lemma find_blk_last:
  assumes "int (length displs) = blocks + 1" and "0 \<le> i"
    and "(\<forall>j. i \<le> j \<and> j < blocks \<longrightarrow> \<not> inb displs j x_start) \<and> s' = s \<or>
         i \<le> s' \<and> s' < blocks \<and> inb displs s' x_start \<and>
           (\<forall>j. s' < j \<and> j < blocks \<longrightarrow> \<not> inb displs j x_start)"
    and "(\<forall>j. i \<le> j \<and> j < blocks \<longrightarrow> \<not> inb displs j x_end) \<and> e' = e \<or>
         i \<le> e' \<and> e' < blocks \<and> inb displs e' x_end \<and>
           (\<forall>j. e' < j \<and> j < blocks \<longrightarrow> \<not> inb displs j x_end)"
  shows "find_blk displs blocks x_start x_end i s e = Some (s', e')"
  using assms
proof (induction displs blocks x_start x_end i s e rule: find_blk.induct)
  case (1 displs blocks x_start x_end i s e)
  show ?case
  proof (cases "i < blocks")
    case False
    with "1.prems" show ?thesis by (subst find_blk.simps) auto
  next
    case True
    with "1.prems" have ib: "in_blk displs i x_start = Some (inb displs i x_start)"
      "in_blk displs i x_end = Some (inb displs i x_end)"
      by (simp_all add: in_blk_inb)
    have "find_blk displs blocks x_start x_end (i + 1)
            (if inb displs i x_start then i else s) (if inb displs i x_end then i else e)
          = Some (s', e')"
      using "1.prems"(1,2)
      by (intro "1.IH" [OF True ib(1) ib(2)] last_hit_step [OF "1.prems"(3) True]
            last_hit_step [OF "1.prems"(4) True]) simp_all
    then show ?thesis
      using True ib by (subst find_blk.simps) simp
  qed
qed



subsection \<open>Arithmetic on values of type int\<close>

lemma i32_id: "c_int x \<Longrightarrow> i32 x = x"
  by (simp add: i32_def c_int_def)

lemma c_add_exact: "c_int (a + b) \<Longrightarrow> c_add a b = a + b"
  by (simp add: c_add_def i32_id)

lemma c_sub_exact: "c_int (a - b) \<Longrightarrow> c_sub a b = a - b"
  by (simp add: c_sub_def i32_id)

lemma c_mul_exact: "c_int (a * b) \<Longrightarrow> c_mul a b = a * b"
  by (simp add: c_mul_def i32_id)

lemma c_int_between: "c_int lo \<Longrightarrow> c_int hi \<Longrightarrow> lo \<le> x \<Longrightarrow> x \<le> hi \<Longrightarrow> c_int x"
  by (simp add: c_int_def)

lemma c_int_0 [simp]: "c_int 0" "c_int 1" "c_int (- 1)"
  by (simp_all add: c_int_def)

lemmas c_arith = c_add_def c_sub_def c_mul_def i32_def


lemma displs_ok_range:
  assumes "displs_ok displs blocks n" "0 \<le> j" "j \<le> blocks"
  shows "0 \<le> displs ! nat j" "displs ! nat j \<le> n"
  using displs_ok_le [OF assms(1) _ assms(2,3)] displs_ok_first [OF assms(1)]
    displs_ok_le [OF assms(1,2,3) order_refl] displs_ok_last [OF assms(1)]
  by simp_all

subsection \<open>The transfer to one destination\<close>

lemma rank_ok_div_mod:
  fixes d cb rb :: int
  assumes "0 < cb" "0 \<le> d" "d < rb * cb"
  shows "0 \<le> d div cb" "d div cb < rb" "0 \<le> d mod cb" "d mod cb < cb"
proof -
  show "0 \<le> d div cb" using assms by (simp add: pos_imp_zdiv_nonneg_iff)
  show m: "0 \<le> d mod cb" and "d mod cb < cb" using assms by simp_all
  have "cb * (d div cb) + d mod cb = d" by simp
  with m have "cb * (d div cb) \<le> d" by linarith
  with assms(3) have "cb * (d div cb) < cb * rb" by (simp add: mult.commute)
  with assms(1) show "d div cb < rb" by (simp add: mult_less_cancel_left)
qed

lemma c_div_nonneg: "0 < b \<Longrightarrow> 0 \<le> a \<Longrightarrow> c_div a b = Some (a div b)"
  by (simp add: c_div_def signed_divide_int_def sgn_if)

lemma c_mod_nonneg: "0 < b \<Longrightarrow> 0 \<le> a \<Longrightarrow> c_mod a b = Some (a mod b)"
  by (simp add: c_mod_def signed_modulo_int_def signed_divide_int_def sgn_if minus_div_mult_eq_mod)

text \<open>The tile of a rank of the grid, and how the code reads it (lines 34 to 40).\<close>

lemma tile_bounds:
  assumes g: "geometry_ok gtm" and d: "rank_ok gtm dst_rank"
  shows "0 \<le> fst (tile_rows gtm dst_rank)"
    "fst (tile_rows gtm dst_rank) < snd (tile_rows gtm dst_rank)"
    "snd (tile_rows gtm dst_rank) \<le> nrows gtm"
    "0 \<le> fst (tile_cols gtm dst_rank)"
    "fst (tile_cols gtm dst_rank) < snd (tile_cols gtm dst_rank)"
    "snd (tile_cols gtm dst_rank) \<le> ncols gtm"
proof -
  from g have okr: "displs_ok (r_displs gtm) (r_blocks gtm) (nrows gtm)"
    and okc: "displs_ok (c_displs gtm) (c_blocks gtm) (ncols gtm)"
    by (simp_all add: geometry_ok_def)
  from okc have cb: "0 < c_blocks gtm" by (simp add: displs_ok_def)
  from d have d0: "0 \<le> dst_rank" and d1: "dst_rank < r_blocks gtm * c_blocks gtm"
    by (simp_all add: rank_ok_def)
  note dm = rank_ok_div_mod [OF cb d0 d1]
  show "0 \<le> fst (tile_rows gtm dst_rank)"
    using displs_ok_range(1) [OF okr, of "dst_rank div c_blocks gtm"] dm
    by (simp add: tile_rows_def)
  show "fst (tile_rows gtm dst_rank) < snd (tile_rows gtm dst_rank)"
    using displs_ok_less [OF okr, of "dst_rank div c_blocks gtm" "dst_rank div c_blocks gtm + 1"] dm
    by (simp add: tile_rows_def)
  show "snd (tile_rows gtm dst_rank) \<le> nrows gtm"
    using displs_ok_range(2) [OF okr, of "dst_rank div c_blocks gtm + 1"] dm
    by (simp add: tile_rows_def)
  show "0 \<le> fst (tile_cols gtm dst_rank)"
    using displs_ok_range(1) [OF okc, of "dst_rank mod c_blocks gtm"] dm
    by (simp add: tile_cols_def)
  show "fst (tile_cols gtm dst_rank) < snd (tile_cols gtm dst_rank)"
    using displs_ok_less [OF okc, of "dst_rank mod c_blocks gtm" "dst_rank mod c_blocks gtm + 1"] dm
    by (simp add: tile_cols_def)
  show "snd (tile_cols gtm dst_rank) \<le> ncols gtm"
    using displs_ok_range(2) [OF okc, of "dst_rank mod c_blocks gtm + 1"] dm
    by (simp add: tile_cols_def)
qed

lemma blocks_c_int:
  assumes g: "geometry_ok gtm" and i: "ints_ok gtm"
  shows "r_blocks gtm \<le> 2147483647" "c_blocks gtm \<le> 2147483647"
proof -
  from g have cb: "1 \<le> c_blocks gtm" and rb: "1 \<le> r_blocks gtm"
    by (simp_all add: geometry_ok_def displs_ok_def)
  from i have p: "r_blocks gtm * c_blocks gtm \<le> 2147483647"
    by (simp add: ints_ok_def c_int_def)
  from mult_left_mono [OF cb, of "r_blocks gtm"] rb have "r_blocks gtm \<le> r_blocks gtm * c_blocks gtm"
    by simp
  with p show "r_blocks gtm \<le> 2147483647" by simp
  from mult_right_mono [OF rb, of "c_blocks gtm"] cb have "c_blocks gtm \<le> r_blocks gtm * c_blocks gtm"
    by simp
  with p show "c_blocks gtm \<le> 2147483647" by simp
qed

lemma tile_reads:
  assumes g: "geometry_ok gtm" and d: "rank_ok gtm dst_rank" and i: "ints_ok gtm"
  shows "c_div dst_rank (c_blocks gtm) = Some (dst_rank div c_blocks gtm)"
    "c_mod dst_rank (c_blocks gtm) = Some (dst_rank mod c_blocks gtm)"
    "rd (r_displs gtm) (dst_rank div c_blocks gtm) = Some (fst (tile_rows gtm dst_rank))"
    "rd (r_displs gtm) (c_add (dst_rank div c_blocks gtm) 1) = Some (snd (tile_rows gtm dst_rank))"
    "rd (c_displs gtm) (dst_rank mod c_blocks gtm) = Some (fst (tile_cols gtm dst_rank))"
    "rd (c_displs gtm) (c_add (dst_rank mod c_blocks gtm) 1) = Some (snd (tile_cols gtm dst_rank))"
proof -
  from g have cb: "0 < c_blocks gtm" and rb: "0 < r_blocks gtm"
    and lr: "int (length (r_displs gtm)) = r_blocks gtm + 1"
    and lc: "int (length (c_displs gtm)) = c_blocks gtm + 1"
    by (simp_all add: geometry_ok_def displs_ok_def)
  from d have d0: "0 \<le> dst_rank" and d1: "dst_rank < r_blocks gtm * c_blocks gtm"
    by (simp_all add: rank_ok_def)
  note dm = rank_ok_div_mod [OF cb d0 d1]
  note bl = blocks_c_int [OF g i]
  have "c_int (dst_rank div c_blocks gtm + 1)" "c_int (dst_rank mod c_blocks gtm + 1)"
    using dm bl by (simp_all add: c_int_def)
  then have a: "c_add (dst_rank div c_blocks gtm) 1 = dst_rank div c_blocks gtm + 1"
    "c_add (dst_rank mod c_blocks gtm) 1 = dst_rank mod c_blocks gtm + 1"
    by (simp_all add: c_add_exact)
  show "c_div dst_rank (c_blocks gtm) = Some (dst_rank div c_blocks gtm)"
    by (rule c_div_nonneg [OF cb d0])
  show "c_mod dst_rank (c_blocks gtm) = Some (dst_rank mod c_blocks gtm)"
    by (rule c_mod_nonneg [OF cb d0])
  show "rd (r_displs gtm) (dst_rank div c_blocks gtm) = Some (fst (tile_rows gtm dst_rank))"
    "rd (r_displs gtm) (c_add (dst_rank div c_blocks gtm) 1) = Some (snd (tile_rows gtm dst_rank))"
    "rd (c_displs gtm) (dst_rank mod c_blocks gtm) = Some (fst (tile_cols gtm dst_rank))"
    "rd (c_displs gtm) (c_add (dst_rank mod c_blocks gtm) 1) = Some (snd (tile_cols gtm dst_rank))"
    unfolding a using dm lr lc by (simp_all add: rd_Some tile_rows_def tile_cols_def)
qed


lemma sb_index_ok_small:
  assumes "0 < row_num" "0 < col_num" "row_num \<le> m" "col_num \<le> m"
  shows "sb_index_ok m ((row_num - 1) * m + (col_num - 1))"
    "0 \<le> (row_num - 1) * m" "(row_num - 1) * m + (col_num - 1) < m * m"
proof -
  define a where "a = (row_num - 1) * m"
  have a0: "0 \<le> a" unfolding a_def using assms by simp
  moreover have "a \<le> (m - 1) * m"
    unfolding a_def using assms by (intro mult_right_mono) simp_all
  then have "a + m \<le> m * m" by (simp add: algebra_simps)
  ultimately have b: "0 \<le> a + (col_num - 1) \<and> a + (col_num - 1) < m * m"
    using assms by linarith
  then show "sb_index_ok m ((row_num - 1) * m + (col_num - 1))"
    by (simp add: sb_index_ok_def a_def)
  from a0 show "0 \<le> (row_num - 1) * m" by (simp add: a_def)
  from b show "(row_num - 1) * m + (col_num - 1) < m * m" by (simp add: a_def)
qed

text \<open>
  In a tile whose local region is well formed, the displacement of a sub-rectangle of
  the tile and its number of elements are values of type int.
\<close>

lemma in_tile_ranges:
  assumes g: "geometry_ok gtm" and d: "rank_ok gtm dst_rank" and i: "ints_ok gtm"
    and t: "in_tile gtm dst_rank row_start row_num col_start col_num"
    and l: "local_ok gtm dst_rank"
  shows "c_int (row_start + row_num)" "c_int (col_start + col_num)"
    "c_int (row_num - 1)" "c_int (col_num - 1)"
    "c_int (row_start - fst (tile_rows gtm dst_rank))"
    "c_int (col_start - fst (tile_cols gtm dst_rank))"
    "c_int ((row_start - fst (tile_rows gtm dst_rank)) * ld_local gtm)"
    "c_int ((row_start - fst (tile_rows gtm dst_rank)) * ld_local gtm +
            (col_start - fst (tile_cols gtm dst_rank)))"
    "c_int (row_num * col_num)"
    "0 \<le> (row_start - fst (tile_rows gtm dst_rank)) * ld_local gtm +
            (col_start - fst (tile_cols gtm dst_rank))"
    "(row_start - fst (tile_rows gtm dst_rank)) * ld_local gtm +
       (col_start - fst (tile_cols gtm dst_rank))
     < ld_local gtm * (snd (tile_rows gtm dst_rank) - fst (tile_rows gtm dst_rank))"
proof -
  let ?ts = "fst (tile_rows gtm dst_rank)" and ?te = "snd (tile_rows gtm dst_rank)"
  let ?cs = "fst (tile_cols gtm dst_rank)" and ?ce = "snd (tile_cols gtm dst_rank)"
  let ?ld = "ld_local gtm"
  note tb = tile_bounds [OF g d]
  from i have n: "nrows gtm \<le> 2147483647" "ncols gtm \<le> 2147483647"
    by (simp_all add: ints_ok_def c_int_def)
  from t have t': "0 < row_num" "0 < col_num" "?ts \<le> row_start" "row_start + row_num \<le> ?te"
    "?cs \<le> col_start" "col_start + col_num \<le> ?ce"
    by (simp_all add: in_tile_def)
  from l have w: "?ce - ?cs \<le> ?ld" and sz: "?ld * (?te - ?ts) \<le> 2147483647"
    by (simp_all add: local_ok_def c_int_def)
  show "c_int (row_start + row_num)" "c_int (col_start + col_num)"
    "c_int (row_num - 1)" "c_int (col_num - 1)"
    "c_int (row_start - ?ts)" "c_int (col_start - ?cs)"
    using tb n t' by (simp_all add: c_int_def)
  define dr where "dr = row_start - ?ts"
  define dc where "dc = col_start - ?cs"
  define rows where "rows = ?te - ?ts"
  have dr: "0 \<le> dr" "dr + row_num \<le> rows" and dc: "0 \<le> dc" "dc + col_num \<le> ?ld"
    using t' w by (simp_all add: dr_def dc_def rows_def)
  have ld: "0 < ?ld" using dc t' by simp
  have m0: "0 \<le> dr * ?ld" using dr ld by simp
  have "(dr + 1) * ?ld \<le> rows * ?ld"
    using dr t' ld by (intro mult_right_mono) simp_all
  then have m1: "dr * ?ld + ?ld \<le> ?ld * rows" by (simp add: algebra_simps)
  have "row_num * col_num \<le> rows * ?ld"
    using dr dc t' by (intro mult_mono) simp_all
  then have ar: "row_num * col_num \<le> ?ld * rows" by (simp add: mult.commute)
  have a0: "0 < row_num * col_num" using t' by simp
  from sz have sz': "?ld * rows \<le> 2147483647" by (simp add: rows_def)
  show "c_int ((row_start - ?ts) * ?ld)"
    using m0 m1 ld sz' unfolding dr_def [symmetric] by (simp add: c_int_def)
  show "c_int ((row_start - ?ts) * ?ld + (col_start - ?cs))"
    using m0 m1 dc t' sz' unfolding dr_def [symmetric] dc_def [symmetric] by (simp add: c_int_def)
  show "c_int (row_num * col_num)" using a0 ar sz' by (simp add: c_int_def)
  show "0 \<le> (row_start - ?ts) * ?ld + (col_start - ?cs)"
    using m0 dc unfolding dr_def [symmetric] dc_def [symmetric] by simp
  show "(row_start - ?ts) * ?ld + (col_start - ?cs) < ?ld * (?te - ?ts)"
    using m1 dc t' unfolding dr_def [symmetric] dc_def [symmetric] rows_def [symmetric] by simp
qed

lemma GTM_updateBlockToProcess_in_tile:
  assumes g: "geometry_ok gtm" and d: "rank_ok gtm dst_rank" and i: "ints_ok gtm"
    and t: "in_tile gtm dst_rank row_start row_num col_start col_num"
    and l: "local_ok gtm dst_rank"
    and m: "c_int (MPI_DT_SB_DIM_MAX * MPI_DT_SB_DIM_MAX)"
  shows "GTM_updateBlockToProcess MPI_DT_SB_DIM_MAX gtm dst_rank opr
           row_start row_num col_start col_num src_buf src_buf_ld =
         Some (GTM_SUCCESS, mpi gtm
           (encoder_policy MPI_DT_SB_DIM_MAX (ld_local gtm) dst_rank opr row_num col_num
              src_buf src_buf_ld
              ((row_start - fst (tile_rows gtm dst_rank)) * ld_local gtm +
               (col_start - fst (tile_cols gtm dst_rank)))))"
proof -
  note r = in_tile_ranges [OF g d i t l]
  from t have t': "0 < row_num" "0 < col_num"
    "fst (tile_rows gtm dst_rank) \<le> row_start"
    "row_start + row_num \<le> snd (tile_rows gtm dst_rank)"
    "fst (tile_cols gtm dst_rank) \<le> col_start"
    "col_start + col_num \<le> snd (tile_cols gtm dst_rank)"
    by (simp_all add: in_tile_def)
  have ex: "c_add row_start row_num = row_start + row_num"
    "c_add col_start col_num = col_start + col_num"
    "c_mul row_num col_num = row_num * col_num"
    "c_sub row_start (fst (tile_rows gtm dst_rank)) = row_start - fst (tile_rows gtm dst_rank)"
    "c_sub col_start (fst (tile_cols gtm dst_rank)) = col_start - fst (tile_cols gtm dst_rank)"
    "c_sub row_num 1 = row_num - 1" "c_sub col_num 1 = col_num - 1"
    "c_mul (row_start - fst (tile_rows gtm dst_rank)) (ld_local gtm) =
       (row_start - fst (tile_rows gtm dst_rank)) * ld_local gtm"
    "c_add ((row_start - fst (tile_rows gtm dst_rank)) * ld_local gtm)
       (col_start - fst (tile_cols gtm dst_rank)) =
     (row_start - fst (tile_rows gtm dst_rank)) * ld_local gtm +
       (col_start - fst (tile_cols gtm dst_rank))"
    using r by (simp_all add: c_add_exact c_sub_exact c_mul_exact)
  have sm: "c_add (c_mul (row_num - 1) MPI_DT_SB_DIM_MAX) (col_num - 1) =
              (row_num - 1) * MPI_DT_SB_DIM_MAX + (col_num - 1) \<and>
            sb_index_ok MPI_DT_SB_DIM_MAX ((row_num - 1) * MPI_DT_SB_DIM_MAX + (col_num - 1))"
    if s: "row_num \<le> MPI_DT_SB_DIM_MAX" "col_num \<le> MPI_DT_SB_DIM_MAX"
  proof -
    note b = sb_index_ok_small [OF t'(1,2) s]
    from m have mm: "MPI_DT_SB_DIM_MAX * MPI_DT_SB_DIM_MAX \<le> 2147483647"
      by (simp add: c_int_def)
    have "c_int ((row_num - 1) * MPI_DT_SB_DIM_MAX)"
      using b(2,3) mm t' by (simp add: c_int_def)
    moreover have "c_int ((row_num - 1) * MPI_DT_SB_DIM_MAX + (col_num - 1))"
      using b(2,3) mm t' by (simp add: c_int_def)
    ultimately show ?thesis using b(1) by (simp add: c_add_exact c_mul_exact)
  qed
  have nz: "row_num * col_num \<noteq> 0" using t' by simp
  show ?thesis
  proof (cases "row_num \<le> MPI_DT_SB_DIM_MAX \<and> col_num \<le> MPI_DT_SB_DIM_MAX")
    case True
    with sm have idx: "c_add (c_mul (row_num - 1) MPI_DT_SB_DIM_MAX) (col_num - 1) =
              (row_num - 1) * MPI_DT_SB_DIM_MAX + (col_num - 1)"
      and ok: "sb_index_ok MPI_DT_SB_DIM_MAX ((row_num - 1) * MPI_DT_SB_DIM_MAX + (col_num - 1))"
      by simp_all
    have "GTM_updateBlockToProcess MPI_DT_SB_DIM_MAX gtm dst_rank opr
           row_start row_num col_start col_num src_buf src_buf_ld =
         Some (GTM_SUCCESS, mpi gtm
           (encoder_policy MPI_DT_SB_DIM_MAX (ld_local gtm) dst_rank opr row_num col_num
              src_buf src_buf_ld
              (c_add (c_mul (c_sub row_start (fst (tile_rows gtm dst_rank))) (ld_local gtm))
                 (c_sub col_start (fst (tile_cols gtm dst_rank))))))"
      unfolding GTM_updateBlockToProcess_def
      using t' nz True ok
      by (simp add: tile_reads [OF g d i] Let_def ex(1-3,6,7) idx encoder_policy_def)
    then show ?thesis by (simp only: ex)
  next
    case False
    have "GTM_updateBlockToProcess MPI_DT_SB_DIM_MAX gtm dst_rank opr
           row_start row_num col_start col_num src_buf src_buf_ld =
         Some (GTM_SUCCESS, mpi gtm
           (encoder_policy MPI_DT_SB_DIM_MAX (ld_local gtm) dst_rank opr row_num col_num
              src_buf src_buf_ld
              (c_add (c_mul (c_sub row_start (fst (tile_rows gtm dst_rank))) (ld_local gtm))
                 (c_sub col_start (fst (tile_cols gtm dst_rank))))))"
      unfolding GTM_updateBlockToProcess_def
      using t' nz
      by (simp add: tile_reads [OF g d i] Let_def ex(1-3) encoder_policy_def False)
    then show ?thesis by (simp only: ex)
  qed
qed


subsection \<open>The batch epoch\<close>

lemma wr_Some: "0 \<le> i \<Longrightarrow> i < int (length xs) \<Longrightarrow> wr xs i v = Some (xs[nat i := v])"
  by (simp add: wr_def)

lemma reset_vecs_all:
  assumes "0 \<le> i" "i \<le> comm_size gtm" "comm_size gtm = int (length (req_vec gtm))"
    and "\<forall>j < nat i. req_vec gtm ! j = []"
  shows "reset_vecs gtm i = Some (gtm\<lparr>req_vec := replicate (length (req_vec gtm)) []\<rparr>)"
  using assms
proof (induction gtm i rule: reset_vecs.induct)
  case (1 gtm i)
  show ?case
  proof (cases "i < comm_size gtm")
    case True
    with "1.prems" have r: "rd (req_vec gtm) i = Some (req_vec gtm ! nat i)"
      and w: "wr (req_vec gtm) i (GTM_resetReqVector (req_vec gtm ! nat i))
              = Some ((req_vec gtm)[nat i := []])"
      by (simp_all add: rd_Some wr_Some GTM_resetReqVector_def)
    have "\<forall>j < nat (i + 1). (req_vec gtm)[nat i := []] ! j = []"
      using "1.prems" True by (auto simp: nth_list_update nat_add_distrib less_Suc_eq)
    with "1.IH" [OF True r w] "1.prems" True
    have "reset_vecs (gtm\<lparr>req_vec := (req_vec gtm)[nat i := []]\<rparr>) (i + 1)
          = Some (gtm\<lparr>req_vec := replicate (length (req_vec gtm)) []\<rparr>)"
      by simp
    then show ?thesis
      using True r w by (subst reset_vecs.simps) simp
  next
    case False
    with "1.prems" have i: "nat i = length (req_vec gtm)" by simp
    with "1.prems"(4) have "req_vec gtm = replicate (length (req_vec gtm)) []"
      by (intro nth_equalityI) simp_all
    then have "gtm\<lparr>req_vec := replicate (length (req_vec gtm)) []\<rparr> = gtm" by simp
    with False show ?thesis by (subst reset_vecs.simps) simp
  qed
qed

subsection \<open>Epochs and the non-blocking counters\<close>

lemma GTM_updateBlockToProcess_calls:
  assumes "GTM_updateBlockToProcess m gtm d opr a b c e p l = Some (ret, gtm')"
  shows "\<exists>calls. gtm' = mpi gtm calls \<and> list_all (\<lambda>c. \<not> is_sync c) calls"
proof -
  have "\<exists>calls. gtm = mpi gtm calls \<and> list_all (\<lambda>c. \<not> is_sync c) calls"
    by (rule exI [of _ "[]"]) (simp add: mpi_Nil)
  moreover have "\<exists>calls. mpi gtm xs = mpi gtm calls \<and> list_all (\<lambda>c. \<not> is_sync c) calls"
    if "list_all (\<lambda>c. \<not> is_sync c) xs" for xs
    using that by blast
  ultimately show ?thesis
    using assms unfolding GTM_updateBlockToProcess_def Let_def
    by (auto split: bind_splits if_splits)
qed






subsection \<open>The replay of the request vectors\<close>

lemma replay_calls:
  "replay m gtm d vec i = Some (ret, gtm') \<Longrightarrow> \<exists>calls. gtm' = mpi gtm calls"
proof (induction m gtm d vec i rule: replay.induct)
  case (1 m gtm d vec i)
  show ?case
  proof (cases "i < int (length vec)")
    case False
    with "1.prems" have "gtm' = mpi gtm []"
      by (subst (asm) replay.simps) (simp add: mpi_Nil)
    then show ?thesis ..
  next
    case True
    with "1.prems" obtain q r1 g1 where
      q: "rd vec i = Some q" and
      u: "GTM_updateBlockToProcess m gtm d (req_op q) (req_row_start q) (req_row_num q)
            (req_col_start q) (req_col_num q) (req_src_buf q) (req_src_buf_ld q)
          = Some (r1, g1)" and
      r: "(if r1 \<noteq> GTM_SUCCESS then Some (r1, g1) else replay m g1 d vec (i + 1))
          = Some (ret, gtm')"
      by (subst (asm) replay.simps) (auto split: bind_splits)
    from GTM_updateBlockToProcess_calls [OF u] obtain c1 where g1: "g1 = mpi gtm c1" by blast
    show ?thesis
    proof (cases "r1 = GTM_SUCCESS")
      case False
      with r g1 show ?thesis by auto
    next
      case True
      with r have "replay m g1 d vec (i + 1) = Some (ret, gtm')" by simp
      from "1.IH" [OF \<open>i < int (length vec)\<close> q u refl _ this] True
      obtain c2 where "gtm' = mpi g1 c2" by auto
      with g1 have "gtm' = mpi gtm (c1 @ c2)" by (simp add: mpi_mpi)
      then show ?thesis ..
    qed
  qed
qed

lemma exec_dst_cases:
  assumes "exec_dst m gtm d' = Some (ret, returned, gtm')"
    and "0 \<le> d'" and "0 < comm_size gtm" and "int (length (req_vec gtm)) = comm_size gtm"
  shows "\<exists>calls.
           returned \<and> ret \<noteq> GTM_SUCCESS \<and> gtm' = mpi gtm calls \<and>
             req_vec gtm ! nat (d' mod comm_size gtm) \<noteq> [] \<or>
           \<not> returned \<and> ret = GTM_SUCCESS \<and>
             gtm' = (mpi gtm calls)\<lparr>req_vec := (req_vec gtm)[nat (d' mod comm_size gtm) := []]\<rparr>"
proof -
  define d where "d = d' mod comm_size gtm"
  have d: "0 \<le> d" "d < int (length (req_vec gtm))" "c_mod d' (comm_size gtm) = Some d"
    using assms(2-4) by (simp_all add: d_def c_mod_nonneg)
  define vec where "vec = req_vec gtm ! nat d"
  have rv: "rd (req_vec gtm) d = Some vec" using d by (simp add: rd_Some vec_def)
  show ?thesis
  proof (cases "vec = []")
    case True
    with assms(1) d rv have "\<not> returned \<and> ret = GTM_SUCCESS \<and>
        gtm' = (mpi gtm [])\<lparr>req_vec := (req_vec gtm)[nat d := []]\<rparr>"
      by (auto simp: exec_dst_def wr_def GTM_resetReqVector_def mpi_Nil)
    then show ?thesis unfolding d_def by blast
  next
    case False
    with assms(1) d rv obtain r1 g1 where
      rp: "replay m (mpi gtm [MPI_Win_lock (acc_lock_type gtm) d]) d vec 0 = Some (r1, g1)"
      by (auto simp: exec_dst_def Let_def split: bind_splits)
    from replay_calls [OF rp] obtain c1 where
      g1: "g1 = mpi gtm (MPI_Win_lock (acc_lock_type gtm) d # c1)"
      by (auto simp: mpi_mpi)
    show ?thesis
    proof (cases "r1 = GTM_SUCCESS")
      case True
      with assms(1) d rv rp False
      have "\<not> returned \<and> ret = GTM_SUCCESS \<and>
        gtm' = (mpi g1 [MPI_Win_unlock d])\<lparr>req_vec := (req_vec g1)[nat d := []]\<rparr>"
        using g1
        by (auto simp: exec_dst_def Let_def wr_def GTM_resetReqVector_def mpi_def
            split: bind_splits)
      then show ?thesis unfolding d_def g1 by (auto simp: mpi_mpi mpi_def)
    next
      case r: False
      with assms(1) d rv rp False
      have "returned \<and> ret \<noteq> GTM_SUCCESS \<and> gtm' = g1"
        by (auto simp: exec_dst_def Let_def split: bind_splits)
      with g1 False show ?thesis unfolding d_def vec_def by blast
    qed
  qed
qed


lemma mod_window_distinct:
  fixes i j n :: int
  assumes "i < j" "j < i + n"
  shows "i mod n \<noteq> j mod n"
proof
  assume "i mod n = j mod n"
  then have "n dvd j - i" by (metis mod_eq_dvd_iff)
  then obtain q where q: "j - i = n * q" ..
  from assms have "0 < j - i" "j - i < n" by simp_all
  with q have "0 < n * q" "n * q < n" by simp_all
  moreover from assms have "0 < n" by simp
  ultimately have "0 < q" "q < 1"
    by (simp_all add: zero_less_mult_iff mult_less_cancel_left1)
  then show False by simp
qed

lemma exec_dsts_queues:
  assumes "exec_dsts m gtm d' = Some (ret, gtm')"
    and "0 < comm_size gtm" "int (length (req_vec gtm)) = comm_size gtm"
    and "0 \<le> my_rank gtm" "my_rank gtm \<le> d'" "d' \<le> my_rank gtm + comm_size gtm"
    and "c_int (comm_size gtm + my_rank gtm)"
  shows "\<exists>k. d' \<le> k \<and> k \<le> my_rank gtm + comm_size gtm \<and>
           (\<forall>j. d' \<le> j \<and> j < k \<longrightarrow> req_vec gtm' ! nat (j mod comm_size gtm) = []) \<and>
           (\<forall>p. 0 \<le> p \<and> p < comm_size gtm \<and> (\<forall>j. d' \<le> j \<and> j < k \<longrightarrow> j mod comm_size gtm \<noteq> p)
                \<longrightarrow> req_vec gtm' ! nat p = req_vec gtm ! nat p) \<and>
           (ret = GTM_SUCCESS \<longleftrightarrow> k = my_rank gtm + comm_size gtm) \<and>
           (ret \<noteq> GTM_SUCCESS \<longrightarrow> req_vec gtm ! nat (k mod comm_size gtm) \<noteq> [])"
  using assms
proof (induction m gtm d' rule: exec_dsts.induct)
  case (1 m gtm d')
  let ?n = "comm_size gtm"
  from "1.prems" have ca: "c_add ?n (my_rank gtm) = ?n + my_rank gtm"
    by (simp add: c_add_exact)
  show ?case
  proof (cases "d' < ?n + my_rank gtm")
    case False
    with "1.prems" have "ret = GTM_SUCCESS" "gtm' = gtm" "d' = my_rank gtm + ?n"
      by (subst (asm) exec_dsts.simps; simp add: ca)+
    then show ?thesis by (intro exI [of _ d']) auto
  next
    case True
    then have lt: "d' < c_add ?n (my_rank gtm)" by (simp add: ca)
    from True "1.prems"(1) obtain r1 returned g1 where
      e: "exec_dst m gtm d' = Some (r1, returned, g1)" and
      r: "(if returned then Some (r1, g1) else exec_dsts m g1 (d' + 1)) = Some (ret, gtm')"
      by (subst (asm) exec_dsts.simps) (auto simp: ca split: bind_splits)
    from "1.prems" have d0: "0 \<le> d'" by simp
    from exec_dst_cases [OF e d0 "1.prems"(2,3)] obtain calls where
      c: "returned \<and> r1 \<noteq> GTM_SUCCESS \<and> g1 = mpi gtm calls \<and>
             req_vec gtm ! nat (d' mod ?n) \<noteq> [] \<or>
           \<not> returned \<and> r1 = GTM_SUCCESS \<and>
             g1 = (mpi gtm calls)\<lparr>req_vec := (req_vec gtm)[nat (d' mod ?n) := []]\<rparr>"
      by blast
    show ?thesis
    proof (cases returned)
      case True
      with c r have "ret \<noteq> GTM_SUCCESS" "gtm' = mpi gtm calls"
        "req_vec gtm ! nat (d' mod ?n) \<noteq> []" by auto
      with \<open>d' < ?n + my_rank gtm\<close> show ?thesis
        by (intro exI [of _ d']) (auto simp: mpi_def)
    next
      case False
      with c r have g1: "g1 = (mpi gtm calls)\<lparr>req_vec := (req_vec gtm)[nat (d' mod ?n) := []]\<rparr>"
        and rec: "exec_dsts m g1 (d' + 1) = Some (ret, gtm')" by auto
      have f: "comm_size g1 = ?n" "my_rank g1 = my_rank gtm"
        "req_vec g1 = (req_vec gtm)[nat (d' mod ?n) := []]"
        by (simp_all add: g1 mpi_def)
      from "1.IH" [OF lt e refl refl False rec] "1.prems" True
      obtain k where k: "d' + 1 \<le> k" "k \<le> my_rank gtm + ?n"
        and cleared: "\<forall>j. d' + 1 \<le> j \<and> j < k \<longrightarrow> req_vec gtm' ! nat (j mod ?n) = []"
        and kept: "\<forall>p. 0 \<le> p \<and> p < ?n \<and> (\<forall>j. d' + 1 \<le> j \<and> j < k \<longrightarrow> j mod ?n \<noteq> p)
                \<longrightarrow> req_vec gtm' ! nat p = req_vec g1 ! nat p"
        and succ: "ret = GTM_SUCCESS \<longleftrightarrow> k = my_rank gtm + ?n"
        and fail: "ret \<noteq> GTM_SUCCESS \<longrightarrow> req_vec g1 ! nat (k mod ?n) \<noteq> []"
        unfolding f by auto
      have n: "0 < ?n" by (rule "1.prems")
      have p0: "0 \<le> d' mod ?n" "d' mod ?n < ?n" using n by simp_all
      have dist: "j mod ?n \<noteq> d' mod ?n" if "d' < j" "j < d' + ?n" for j
        using mod_window_distinct [OF that] by simp
      have kn: "k \<le> d' + ?n" using k "1.prems" by simp
      have "req_vec gtm' ! nat (d' mod ?n) = req_vec g1 ! nat (d' mod ?n)"
        using kept p0 dist kn by force
      also have "\<dots> = []" using p0 "1.prems"(3) by (simp add: f)
      finally have here: "req_vec gtm' ! nat (d' mod ?n) = []" .
      have c': "\<forall>j. d' \<le> j \<and> j < k \<longrightarrow> req_vec gtm' ! nat (j mod ?n) = []"
      proof (intro allI impI)
        fix j assume "d' \<le> j \<and> j < k"
        then consider "j = d'" | "d' + 1 \<le> j \<and> j < k" by linarith
        then show "req_vec gtm' ! nat (j mod ?n) = []"
          using here cleared by cases auto
      qed
      have k': "\<forall>p. 0 \<le> p \<and> p < ?n \<and> (\<forall>j. d' \<le> j \<and> j < k \<longrightarrow> j mod ?n \<noteq> p)
                \<longrightarrow> req_vec gtm' ! nat p = req_vec gtm ! nat p"
      proof (intro allI impI)
        fix p assume p: "0 \<le> p \<and> p < ?n \<and> (\<forall>j. d' \<le> j \<and> j < k \<longrightarrow> j mod ?n \<noteq> p)"
        with k have "d' mod ?n \<noteq> p" by auto
        with p p0 n have "nat (d' mod ?n) \<noteq> nat p" by (simp add: eq_nat_nat_iff)
        moreover from p kept have "req_vec gtm' ! nat p = req_vec g1 ! nat p" by auto
        ultimately show "req_vec gtm' ! nat p = req_vec gtm ! nat p" by (simp add: f)
      qed
      have f': "ret \<noteq> GTM_SUCCESS \<longrightarrow> req_vec gtm ! nat (k mod ?n) \<noteq> []"
      proof
        assume ne: "ret \<noteq> GTM_SUCCESS"
        with succ k have "k < my_rank gtm + ?n" by auto
        with "1.prems" k have "d' < k" "k < d' + ?n" by auto
        from dist [OF this] p0 n have "nat (k mod ?n) \<noteq> nat (d' mod ?n)"
          by (simp add: eq_nat_nat_iff)
        with fail ne show "req_vec gtm ! nat (k mod ?n) \<noteq> []" by (simp add: f)
      qed
      from k c' k' succ f' show ?thesis
        by (intro exI [of _ k]) simp
    qed
  qed
qed


text \<open>
  The request vectors after \<^verbatim>\<open>GTM_execBatchUpdate\<close>, which processes the destinations in
  round-robin order from the caller's rank; \<open>k\<close> is the number of destinations it has
  finished. Their request vectors are empty afterwards. The call succeeds exactly when
  it has finished all of them. When it fails it has returned during the replay for the
  next destination in the order, whose request vector was not empty; that request vector
  and those of the destinations not reached are as they were before the call.
\<close>

lemma GTM_execBatchUpdate_queues:
  assumes "group_ok gtm" and "in_batch_put gtm \<noteq> 0" and "in_batch_acc gtm \<noteq> 0"
    and "GTM_execBatchUpdate MPI_DT_SB_DIM_MAX (Some gtm) = Some (ret, Some gtm')"
    and "c_int (comm_size gtm + my_rank gtm)"
  shows "\<exists>k. 0 \<le> k \<and> k \<le> comm_size gtm \<and>
           (\<forall>j. 0 \<le> j \<and> j < k \<longrightarrow>
              req_vec gtm' ! nat ((my_rank gtm + j) mod comm_size gtm) = []) \<and>
           (\<forall>j. k \<le> j \<and> j < comm_size gtm \<longrightarrow>
              req_vec gtm' ! nat ((my_rank gtm + j) mod comm_size gtm) =
              req_vec gtm ! nat ((my_rank gtm + j) mod comm_size gtm)) \<and>
           (ret = GTM_SUCCESS \<longleftrightarrow> k = comm_size gtm) \<and>
           (ret \<noteq> GTM_SUCCESS \<longrightarrow>
              req_vec gtm ! nat ((my_rank gtm + k) mod comm_size gtm) \<noteq> [])"
proof -
  let ?n = "comm_size gtm" and ?m = "my_rank gtm"
  from assms(1) have n: "0 < ?n" and len: "int (length (req_vec gtm)) = ?n"
    and m: "0 \<le> ?m"
    by (simp_all add: group_ok_def)
  from assms(2-4) have "exec_dsts MPI_DT_SB_DIM_MAX gtm ?m = Some (ret, gtm')"
    by (auto simp: GTM_execBatchUpdate_def split: bind_splits)
  from exec_dsts_queues [OF this n len m order_refl _ assms(5)] n obtain k where
    k: "?m \<le> k" "k \<le> ?m + ?n"
    and cleared: "\<forall>j. ?m \<le> j \<and> j < k \<longrightarrow> req_vec gtm' ! nat (j mod ?n) = []"
    and kept: "\<forall>p. 0 \<le> p \<and> p < ?n \<and> (\<forall>j. ?m \<le> j \<and> j < k \<longrightarrow> j mod ?n \<noteq> p)
                \<longrightarrow> req_vec gtm' ! nat p = req_vec gtm ! nat p"
    and succ: "ret = GTM_SUCCESS \<longleftrightarrow> k = ?m + ?n"
    and fail: "ret \<noteq> GTM_SUCCESS \<longrightarrow> req_vec gtm ! nat (k mod ?n) \<noteq> []"
    by auto
  have "\<forall>j. k - ?m \<le> j \<and> j < ?n \<longrightarrow>
          req_vec gtm' ! nat ((?m + j) mod ?n) = req_vec gtm ! nat ((?m + j) mod ?n)"
  proof (intro allI impI)
    fix j assume j: "k - ?m \<le> j \<and> j < ?n"
    have "i mod ?n \<noteq> (?m + j) mod ?n" if "?m \<le> i \<and> i < k" for i
      using mod_window_distinct [of i "?m + j" ?n] that j by simp
    with n kept show "req_vec gtm' ! nat ((?m + j) mod ?n) = req_vec gtm ! nat ((?m + j) mod ?n)"
      by simp
  qed
  moreover have "\<forall>j. 0 \<le> j \<and> j < k - ?m \<longrightarrow> req_vec gtm' ! nat ((?m + j) mod ?n) = []"
    using cleared by simp
  ultimately show ?thesis
    using k succ fail by (intro exI [of _ "k - ?m"]) auto
qed


subsection \<open>A replay in which every request is accepted\<close>

lemma geometry_mpi [simp]:
  "geometry_ok (mpi gtm calls) = geometry_ok gtm"
  "rank_ok (mpi gtm calls) d = rank_ok gtm d"
  "tile_rows (mpi gtm calls) d = tile_rows gtm d"
  "tile_cols (mpi gtm calls) d = tile_cols gtm d"
  "req_ok (mpi gtm calls) d r = req_ok gtm d r"
  "req_calls m (mpi gtm calls) d = req_calls m gtm d"
  "ld_local (mpi gtm calls) = ld_local gtm"
  "ints_ok (mpi gtm calls) = ints_ok gtm"
  "local_ok (mpi gtm calls) d = local_ok gtm d"
  by (simp_all add: geometry_ok_def rank_ok_def tile_rows_def tile_cols_def req_ok_def
      in_tile_def req_calls_def ints_ok_def local_ok_def mpi_def fun_eq_iff)

lemma replay_ok:
  assumes "geometry_ok gtm" "rank_ok gtm d" "0 \<le> i"
    and "\<forall>r \<in> set (drop (nat i) vec). req_ok gtm d r"
    and "ints_ok gtm" "local_ok gtm d" "c_int (m * m)"
  shows "replay m gtm d vec i =
         Some (GTM_SUCCESS, mpi gtm (concat (map (req_calls m gtm d) (drop (nat i) vec))))"
  using assms
proof (induction m gtm d vec i rule: replay.induct)
  case (1 m gtm d vec i)
  show ?case
  proof (cases "i < int (length vec)")
    case False
    then show ?thesis using "1.prems" by (subst replay.simps) (simp add: mpi_Nil)
  next
    case True
    define q where "q = vec ! nat i"
    from True "1.prems" have dr: "drop (nat i) vec = q # drop (nat (i + 1)) vec"
      by (simp add: q_def Cons_nth_drop_Suc nat_add_distrib)
    from True "1.prems" have rq: "rd vec i = Some q" by (simp add: rd_Some q_def)
    from dr "1.prems" have "req_ok gtm d q" by simp
    then have u: "GTM_updateBlockToProcess m gtm d (req_op q) (req_row_start q) (req_row_num q)
            (req_col_start q) (req_col_num q) (req_src_buf q) (req_src_buf_ld q)
          = Some (GTM_SUCCESS, mpi gtm (req_calls m gtm d q))"
      unfolding req_ok_def req_calls_def
      by (rule GTM_updateBlockToProcess_in_tile [OF "1.prems"(1,2,5) _ "1.prems"(6,7)])
    have "replay m (mpi gtm (req_calls m gtm d q)) d vec (i + 1) =
          Some (GTM_SUCCESS, mpi (mpi gtm (req_calls m gtm d q))
            (concat (map (req_calls m (mpi gtm (req_calls m gtm d q)) d)
               (drop (nat (i + 1)) vec))))"
      using "1.prems" dr
      by (intro "1.IH" [OF True rq u refl]) simp_all
    then show ?thesis
      using True rq u by (subst replay.simps) (simp add: dr mpi_mpi)
  qed
qed


lemma geometry_req_vec [simp]:
  "geometry_ok (gtm\<lparr>req_vec := v\<rparr>) = geometry_ok gtm"
  "rank_ok (gtm\<lparr>req_vec := v\<rparr>) d = rank_ok gtm d"
  "req_ok (gtm\<lparr>req_vec := v\<rparr>) d r = req_ok gtm d r"
  "req_calls m (gtm\<lparr>req_vec := v\<rparr>) d = req_calls m gtm d"
  "ints_ok (gtm\<lparr>req_vec := v\<rparr>) = ints_ok gtm"
  "local_ok (gtm\<lparr>req_vec := v\<rparr>) d = local_ok gtm d"
  by (simp_all add: geometry_ok_def rank_ok_def tile_rows_def tile_cols_def req_ok_def
      in_tile_def req_calls_def ints_ok_def local_ok_def fun_eq_iff)

lemma dst_calls_cong:
  assumes "req_vec g ! nat d = req_vec gtm ! nat d" "acc_lock_type g = acc_lock_type gtm"
    "req_calls m g d = req_calls m gtm d"
  shows "dst_calls m g d = dst_calls m gtm d"
  using assms by (simp add: dst_calls_def Let_def)

lemma exec_dst_ok:
  assumes "geometry_ok gtm" and "0 \<le> d'" and "0 < comm_size gtm"
    and "int (length (req_vec gtm)) = comm_size gtm"
    and "comm_size gtm = r_blocks gtm * c_blocks gtm"
    and "\<forall>r \<in> set (req_vec gtm ! nat (d' mod comm_size gtm)). req_ok gtm (d' mod comm_size gtm) r"
    and "ints_ok gtm" "local_ok gtm (d' mod comm_size gtm)" "c_int (m * m)"
  shows "exec_dst m gtm d' =
         Some (GTM_SUCCESS, False,
               (mpi gtm (dst_calls m gtm (d' mod comm_size gtm)))
                 \<lparr>req_vec := (req_vec gtm)[nat (d' mod comm_size gtm) := []]\<rparr>)"
proof -
  define d where "d = d' mod comm_size gtm"
  have d: "0 \<le> d" "d < int (length (req_vec gtm))" "c_mod d' (comm_size gtm) = Some d"
    using assms(2-4) by (simp_all add: d_def c_mod_nonneg)
  then have rk: "rank_ok gtm d" using assms(4,5) by (simp add: rank_ok_def)
  define vec where "vec = req_vec gtm ! nat d"
  have rv: "rd (req_vec gtm) d = Some vec" using d by (simp add: rd_Some vec_def)
  have w: "wr (req_vec gtm) d (GTM_resetReqVector v) = Some ((req_vec gtm)[nat d := []])" for v
    using d by (simp add: wr_def GTM_resetReqVector_def)
  show ?thesis
  proof (cases "vec = []")
    case True
    then show ?thesis
      unfolding d_def [symmetric]
      by (simp add: exec_dst_def d rv w dst_calls_def vec_def [symmetric] mpi_Nil)
  next
    case False
    let ?g0 = "mpi gtm [MPI_Win_lock (acc_lock_type gtm) d]"
    have "replay m ?g0 d vec 0 =
          Some (GTM_SUCCESS, mpi ?g0 (concat (map (req_calls m ?g0 d) (drop (nat 0) vec))))"
      using assms(1,6-9) rk by (intro replay_ok) (simp_all add: d_def vec_def)
    then have rp: "replay m ?g0 d vec 0 =
          Some (GTM_SUCCESS, mpi gtm (MPI_Win_lock (acc_lock_type gtm) d #
                  concat (map (req_calls m gtm d) vec)))"
      by (simp add: mpi_mpi)
    show ?thesis
      unfolding d_def [symmetric]
      using False
      by (simp add: exec_dst_def d rv Let_def rp dst_calls_def vec_def [symmetric] mpi_mpi)
         (simp add: mpi_def wr_def d GTM_resetReqVector_def)
  qed
qed

lemma exec_dsts_ok:
  assumes "geometry_ok gtm" and "0 < comm_size gtm"
    and "int (length (req_vec gtm)) = comm_size gtm"
    and "comm_size gtm = r_blocks gtm * c_blocks gtm"
    and "0 \<le> my_rank gtm" "my_rank gtm \<le> d'" "d' \<le> my_rank gtm + comm_size gtm"
    and "\<forall>j. d' \<le> j \<and> j < my_rank gtm + comm_size gtm \<longrightarrow>
           (\<forall>r \<in> set (req_vec gtm ! nat (j mod comm_size gtm)). req_ok gtm (j mod comm_size gtm) r)"
    and "ints_ok gtm" "\<forall>p. 0 \<le> p \<and> p < comm_size gtm \<longrightarrow> local_ok gtm p" "c_int (m * m)"
    and "c_int (comm_size gtm + my_rank gtm)"
  shows "exec_dsts m gtm d' =
         Some (GTM_SUCCESS,
               (mpi gtm (concat (map (\<lambda>j. dst_calls m gtm (j mod comm_size gtm))
                                   [d' .. my_rank gtm + comm_size gtm - 1])))
                 \<lparr>req_vec := fold (\<lambda>j vs. vs[nat (j mod comm_size gtm) := []])
                                [d' .. my_rank gtm + comm_size gtm - 1] (req_vec gtm)\<rparr>)"
  using assms
proof (induction m gtm d' rule: exec_dsts.induct)
  case (1 m gtm d')
  let ?n = "comm_size gtm" and ?e = "my_rank gtm + comm_size gtm - 1"
  from "1.prems" have ca: "c_add ?n (my_rank gtm) = ?n + my_rank gtm"
    by (simp add: c_add_exact)
  show ?case
  proof (cases "d' < ?n + my_rank gtm")
    case False
    with "1.prems" have "[d' .. ?e] = []" by simp
    with False show ?thesis
      by (subst exec_dsts.simps) (simp add: mpi_Nil ca)
  next
    case True
    then have lt: "d' < c_add ?n (my_rank gtm)" by (simp add: ca)
    from True have up: "[d' .. ?e] = d' # [d' + 1 .. ?e]" by (simp add: upto_rec1)
    from "1.prems" have d0: "0 \<le> d'" by simp
    define d where "d = d' mod ?n"
    define g1 where "g1 = (mpi gtm (dst_calls m gtm d))\<lparr>req_vec := (req_vec gtm)[nat d := []]\<rparr>"
    have e: "exec_dst m gtm d' = Some (GTM_SUCCESS, False, g1)"
      unfolding g1_def d_def
      using "1.prems" True by (intro exec_dst_ok) simp_all
    have f: "comm_size g1 = ?n" "my_rank g1 = my_rank gtm"
      "req_vec g1 = (req_vec gtm)[nat d := []]"
      "r_blocks g1 = r_blocks gtm" "c_blocks g1 = c_blocks gtm"
      "acc_lock_type g1 = acc_lock_type gtm"
      by (simp_all add: g1_def mpi_def)
    have g: "geometry_ok g1" "\<And>p r. req_ok g1 p r = req_ok gtm p r"
      "\<And>p. req_calls m g1 p = req_calls m gtm p"
      "ints_ok g1" "\<And>p. local_ok g1 p = local_ok gtm p"
      using "1.prems"(1,9) by (simp_all add: g1_def)
    have n: "0 < ?n" by (rule "1.prems")
    have p0: "0 \<le> d" "d < ?n" using n by (simp_all add: d_def)
    have same: "req_vec g1 ! nat (j mod ?n) = req_vec gtm ! nat (j mod ?n)"
      if "d' + 1 \<le> j" "j < my_rank gtm + ?n" for j
    proof -
      from that "1.prems" have "d' < j" "j < d' + ?n" by simp_all
      from mod_window_distinct [OF this] have "j mod ?n \<noteq> d" by (simp add: d_def)
      with p0 n have "nat (j mod ?n) \<noteq> nat d" by (simp add: eq_nat_nat_iff)
      then show ?thesis by (simp add: f)
    qed
    have "exec_dsts m g1 (d' + 1) =
         Some (GTM_SUCCESS,
               (mpi g1 (concat (map (\<lambda>j. dst_calls m g1 (j mod comm_size g1))
                                   [d' + 1 .. my_rank g1 + comm_size g1 - 1])))
                 \<lparr>req_vec := fold (\<lambda>j vs. vs[nat (j mod comm_size g1) := []])
                                [d' + 1 .. my_rank g1 + comm_size g1 - 1] (req_vec g1)\<rparr>)"
      using "1.prems" True same
      by (intro "1.IH" [OF lt e refl refl]) (simp_all add: f g)
    moreover have "map (\<lambda>j. dst_calls m g1 (j mod ?n)) [d' + 1 .. ?e] =
                   map (\<lambda>j. dst_calls m gtm (j mod ?n)) [d' + 1 .. ?e]"
      by (intro map_cong refl dst_calls_cong same) (simp_all add: f g)
    ultimately have "exec_dsts m g1 (d' + 1) =
         Some (GTM_SUCCESS,
               (mpi g1 (concat (map (\<lambda>j. dst_calls m gtm (j mod ?n)) [d' + 1 .. ?e])))
                 \<lparr>req_vec := fold (\<lambda>j vs. vs[nat (j mod ?n) := []])
                                [d' + 1 .. ?e] ((req_vec gtm)[nat d := []])\<rparr>)"
      by (simp add: f)
    then show ?thesis
      using True e
      by (subst exec_dsts.simps) (simp add: ca up d_def [symmetric] g1_def mpi_def)
  qed
qed


lemma upto_shift:
  fixes a n :: int
  shows "[a .. a + n - 1] = map (\<lambda>k. a + k) [0 .. n - 1]"
  by (rule nth_equalityI) simp_all

lemma fold_clear:
  "length (fold (\<lambda>j vs. vs[f j := []]) js vs) = length vs \<and>
   (\<forall>p < length vs. fold (\<lambda>j vs. vs[f j := []]) js vs ! p =
      (if p \<in> f ` set js then [] else vs ! p))"
proof (induction js arbitrary: vs)
  case Nil
  show ?case by simp
next
  case (Cons j js)
  from Cons [of "vs[f j := []]"] show ?case
    by (auto simp: nth_list_update)
qed

lemma fold_clear_window:
  fixes a n :: int
  assumes "0 < n" "int (length vs) = n"
  shows "fold (\<lambda>j vs. vs[nat (j mod n) := []]) [a .. a + n - 1] vs = replicate (length vs) []"
proof (rule nth_equalityI)
  show "length (fold (\<lambda>j vs. vs[nat (j mod n) := []]) [a .. a + n - 1] vs) =
        length (replicate (length vs) [])"
    using fold_clear [of "\<lambda>j. nat (j mod n)" "[a .. a + n - 1]" vs] by simp
next
  fix p assume "p < length (fold (\<lambda>j vs. vs[nat (j mod n) := []]) [a .. a + n - 1] vs)"
  then have p: "p < length vs"
    using fold_clear [of "\<lambda>j. nat (j mod n)" "[a .. a + n - 1]" vs] by simp
  define j where "j = a + (int p - a) mod n"
  have "a \<le> j" "j \<le> a + n - 1" using assms by (simp_all add: j_def)
  moreover have "j mod n = int p"
    using p assms by (simp add: j_def mod_add_right_eq)
  ultimately have "p \<in> (\<lambda>j. nat (j mod n)) ` set [a .. a + n - 1]"
    by (intro image_eqI [of _ _ j]) simp_all
  with p show "fold (\<lambda>j vs. vs[nat (j mod n) := []]) [a .. a + n - 1] vs ! p =
        replicate (length vs) [] ! p"
    using fold_clear [of "\<lambda>j. nat (j mod n)" "[a .. a + n - 1]" vs] by simp
qed

subsection \<open>The loop nest enumerates the blocks between the two corners\<close>




















section \<open>What a loop nest preserves\<close>

text \<open>
  A property of the state that every run of the per-destination action preserves holds
  after the loops, whichever way they end.
\<close>

lemma update_cols_inv:
  assumes b: "\<And>d a b c e st r st'. P st \<Longrightarrow> body d a b c e st = Some (r, st') \<Longrightarrow> P st'"
    and "update_cols body geo row_start row_end col_start col_end blk_r dst_r_s dst_r_e
           e_blk_c blk_c st = Some (ret, st')"
    and "P st"
  shows "P st'"
  using assms(2,3)
proof (induction "nat (e_blk_c + 1 - blk_c)" arbitrary: blk_c st)
  case 0
  then have "\<not> blk_c \<le> e_blk_c" by simp
  with "0.prems" show ?case by (subst (asm) update_cols.simps) simp
next
  case (Suc n)
  then have le: "blk_c \<le> e_blk_c" by simp
  from Suc.prems(1) le obtain d a b' c e r1 st1 where
    s: "body d a b' c e st = Some (r1, st1)"
    and k: "(if r1 \<noteq> GTM_SUCCESS then Some (r1, st1)
             else update_cols body geo row_start row_end col_start col_end blk_r dst_r_s dst_r_e
                    e_blk_c (blk_c + 1) st1) = Some (ret, st')"
    by (subst (asm) update_cols.simps)
       (auto split: if_splits bind_splits prod.splits simp: Let_def)
  from b [OF Suc.prems(2) s] have p1: "P st1" .
  show ?case
  proof (cases "r1 = GTM_SUCCESS")
    case True
    with k have "update_cols body geo row_start row_end col_start col_end blk_r dst_r_s dst_r_e
                    e_blk_c (blk_c + 1) st1 = Some (ret, st')" by simp
    moreover have "n = nat (e_blk_c + 1 - (blk_c + 1))" using Suc.hyps(2) by simp
    ultimately show ?thesis using p1 Suc.hyps(1) by blast
  next
    case False
    with k p1 show ?thesis by simp
  qed
qed

lemma update_rows_inv:
  assumes b: "\<And>d a b c e st r st'. P st \<Longrightarrow> body d a b c e st = Some (r, st') \<Longrightarrow> P st'"
    and "update_rows body geo row_start row_end col_start col_end s_blk_c e_blk_c
           e_blk_r blk_r st = Some (ret, st')"
    and "P st"
  shows "P st'"
  using assms(2,3)
proof (induction "nat (e_blk_r + 1 - blk_r)" arbitrary: blk_r st)
  case 0
  then have "\<not> blk_r \<le> e_blk_r" by simp
  with "0.prems" show ?case by (subst (asm) update_rows.simps) simp
next
  case (Suc n)
  then have le: "blk_r \<le> e_blk_r" by simp
  from Suc.prems(1) le obtain dst_r_s dst_r_e r1 st1 where
    s: "update_cols body geo row_start row_end col_start col_end blk_r dst_r_s dst_r_e
          e_blk_c s_blk_c st = Some (r1, st1)"
    and k: "(if r1 \<noteq> GTM_SUCCESS then Some (r1, st1)
             else update_rows body geo row_start row_end col_start col_end s_blk_c e_blk_c
                    e_blk_r (blk_r + 1) st1) = Some (ret, st')"
    by (subst (asm) update_rows.simps)
       (auto split: if_splits bind_splits prod.splits simp: Let_def)
  have p1: "P st1"
    by (rule update_cols_inv [where P = P and body = body, OF b s Suc.prems(2)])
  show ?case
  proof (cases "r1 = GTM_SUCCESS")
    case True
    with k have "update_rows body geo row_start row_end col_start col_end s_blk_c e_blk_c
                    e_blk_r (blk_r + 1) st1 = Some (ret, st')" by simp
    moreover have "n = nat (e_blk_r + 1 - (blk_r + 1))" using Suc.hyps(2) by simp
    ultimately show ?thesis using p1 Suc.hyps(1) by blast
  next
    case False
    with k p1 show ?thesis by simp
  qed
qed

lemma update_loops_inv:
  assumes b: "\<And>d a b c e st r st'. P st \<Longrightarrow> body d a b c e st = Some (r, st') \<Longrightarrow> P st'"
    and "update_loops body geo row_start row_num col_start col_num st = Some (ret, st')"
    and "P st"
  shows "P st'"
proof -
  from assms(2) obtain s_r e_r s_c e_c where
    u: "update_rows body geo row_start (c_sub (c_add row_start row_num) 1) col_start
       (c_sub (c_add col_start col_num) 1) s_c e_c e_r s_r st = Some (ret, st')"
    by (auto simp: update_loops_def Let_def split: bind_splits prod.splits)
  show ?thesis
    by (rule update_rows_inv [where P = P and body = body, OF b u assms(3)])
qed

text \<open>
  Batch mode (lines 185 to 192): the action appends one request, with the operator, the
  sub-rectangle, the address in the source buffer and its leading dimension, to the
  request vector of the destination, and \<^verbatim>\<open>GTM_updateBlock\<close> changes nothing but the
  request vectors: it makes no MPI call.
\<close>

lemma update_batch_queue:
  assumes "update_batch gtm dst_rank opr blk_r_s blk_r_num blk_c_s blk_c_num blk_ptr src_buf_ld
           = Some (ret, gtm')"
  shows "ret = GTM_SUCCESS \<and>
         gtm' = gtm\<lparr>req_vec := (req_vec gtm)[nat dst_rank :=
                   req_vec gtm ! nat dst_rank @
                   [\<lparr>req_op = opr, req_row_start = blk_r_s, req_row_num = blk_r_num,
                     req_col_start = blk_c_s, req_col_num = blk_c_num,
                     req_src_buf = blk_ptr, req_src_buf_ld = src_buf_ld\<rparr>]]\<rparr>"
  using assms
  by (auto simp: update_batch_def GTM_pushToReqVector_def rd_def wr_def Let_def
      split: bind_splits if_splits)

lemma GTM_updateBlock_batch_queues_only:
  assumes "GTM_updateBlock MPI_DT_SB_DIM_MAX (Some gtm) opr row_start row_num col_start col_num
             src_buf src_buf_ld BATCH_ACCESS = Some (ret, Some gtm')"
  shows "gtm' = gtm\<lparr>req_vec := req_vec gtm'\<rparr> \<and> mpi_calls gtm' = mpi_calls gtm"
proof (cases "row_start < 0 \<or> col_start < 0 \<or> c_add row_start row_num > nrows gtm \<or>
               c_add col_start col_num > ncols gtm \<or> c_mul row_num col_num = 0")
  case True
  with assms show ?thesis by (auto simp: GTM_updateBlock_def)
next
  case False
  with assms have u: "update_loops
      (update_dst MPI_DT_SB_DIM_MAX opr row_start col_start src_buf src_buf_ld BATCH_ACCESS)
      gtm row_start row_num col_start col_num gtm = Some (ret, gtm')"
    by (auto simp: GTM_updateBlock_def split: bind_splits if_splits)
  have "gtm' = gtm\<lparr>req_vec := req_vec gtm'\<rparr>"
  proof (rule update_loops_inv [where P = "\<lambda>st. st = gtm\<lparr>req_vec := req_vec st\<rparr>", OF _ u])
    show "gtm = gtm\<lparr>req_vec := req_vec gtm\<rparr>" by simp
  next
    fix d a b c e st r st'
    assume p: "st = gtm\<lparr>req_vec := req_vec st\<rparr>"
      and s: "update_dst MPI_DT_SB_DIM_MAX opr row_start col_start src_buf src_buf_ld
                BATCH_ACCESS d a b c e st = Some (r, st')"
    from s obtain q where "st' = st\<lparr>req_vec := q\<rparr>"
      by (auto simp: update_dst_def Let_def dest!: update_batch_queue)
    moreover have "st\<lparr>req_vec := q\<rparr> = (gtm\<lparr>req_vec := req_vec st\<rparr>)\<lparr>req_vec := q\<rparr>"
      by (rule arg_cong [where f = "\<lambda>s. s\<lparr>req_vec := q\<rparr>"]) (rule p)
    ultimately have "st' = gtm\<lparr>req_vec := q\<rparr>" by simp
    then show "st' = gtm\<lparr>req_vec := req_vec st'\<rparr>" by simp
  qed
  then have e: "gtm' = gtm\<lparr>req_vec := req_vec gtm'\<rparr>" .
  then have "mpi_calls gtm' = mpi_calls (gtm\<lparr>req_vec := req_vec gtm'\<rparr>)"
    by (rule arg_cong)
  then have "mpi_calls gtm' = mpi_calls gtm" by simp
  with e show ?thesis by (intro conjI)
qed


section \<open>Where the arithmetic wraps around\<close>

text \<open>
  What the program computes when a result does not fit an int. The product of line 112
  is 0 for the whole of the 65536 by 65536 matrix, which is rejected; the sum of line
  110 is negative for a rectangle that starts at row 2147483647, which is accepted and
  updates nothing; the product of line 47 and the displacement of lines 49 and 50 wrap
  around in a tile of \<open>2^32\<close> elements; so does the offset of line 156 into the
  source buffer. The hypotheses \<open>ints_ok\<close>, \<open>local_ok\<close> and \<open>c_int\<close> of the theorems below
  keep the program away from these cases.
\<close>

lemma GTM_updateBlock_area_wraps:
  "geometry_ok gtm_big \<and> ints_ok gtm_big \<and>
   GTM_updateBlock 16 (Some gtm_big) MPI_REPLACE 0 65536 0 65536 1000 65536 BLOCKING_ACCESS
     = Some (GTM_INVALID_BLOCK, Some gtm_big)"
  by (simp add: geometry_ok_def displs_ok_def ints_ok_def c_int_def GTM_updateBlock_def
      c_arith gtm_big_def)

lemma GTM_updateBlock_sum_wraps:
  "GTM_updateBlock 16 (Some gtm4) MPI_REPLACE 2147483647 1 0 1 1000 4 BLOCKING_ACCESS
     = Some (GTM_SUCCESS, Some gtm4)"
  by (simp add: GTM_updateBlock_def c_arith update_loops_def find_blk.simps in_blk_def rd_def
      update_rows.simps gtm4_def Let_def)

lemma GTM_updateBlockToProcess_area_wraps:
  "geometry_ok gtm_big \<and> ints_ok gtm_big \<and> rank_ok gtm_big 0 \<and>
   in_tile gtm_big 0 0 65536 0 65536 \<and>
   GTM_updateBlockToProcess 16 gtm_big 0 MPI_REPLACE 0 65536 0 65536 1000 65536
     = Some (GTM_INVALID_BLOCK, gtm_big)"
  by (simp add: geometry_ok_def displs_ok_def ints_ok_def c_int_def rank_ok_def in_tile_def
      tile_rows_def tile_cols_def GTM_updateBlockToProcess_def c_div_def c_mod_def rd_def
      signed_divide_int_def signed_modulo_int_def c_arith gtm_big_def)

lemma GTM_updateBlockToProcess_dst_pos_wraps:
  "in_tile gtm_big 0 32768 1 0 1 \<and>
   GTM_updateBlockToProcess 16 gtm_big 0 MPI_REPLACE 32768 1 0 1 1000 1
     = Some (GTM_SUCCESS, mpi gtm_big
         [MPI_Accumulate 1000 (Sb_nostride 0) 0 (- 2147483648) (Sb_stride 0) MPI_REPLACE])"
  by (simp add: in_tile_def
      tile_rows_def tile_cols_def GTM_updateBlockToProcess_def c_div_def c_mod_def rd_def
      signed_divide_int_def signed_modulo_int_def c_arith sb_index_ok_def gtm_big_def)

lemma update_dst_blk_ptr_wraps:
  "update_dst 16 MPI_REPLACE 0 0 1000 65536 BATCH_ACCESS 0 4096 1 0 1 gtm_big =
     Some (GTM_SUCCESS, gtm_big\<lparr>req_vec :=
       [[\<lparr>req_op = MPI_REPLACE, req_row_start = 4096, req_row_num = 1,
           req_col_start = 0, req_col_num = 1,
           req_src_buf = 1000 - 2147483648, req_src_buf_ld = 65536\<rparr>]]\<rparr>)"
  by (simp add: update_dst_def update_batch_def GTM_pushToReqVector_def rd_def wr_def
      c_arith gtm_big_def)

section \<open>Claims\<close>





text \<open>
  Claim C10. The outer validation of \<^verbatim>\<open>GTM_updateBlock\<close> tests the area only through
  \<^verbatim>\<open>row_num * col_num == 0\<close>. For \<^verbatim>\<open>row_start = 0\<close>, \<^verbatim>\<open>row_num = -1\<close>,
  \<^verbatim>\<open>col_start = 0\<close>, \<^verbatim>\<open>col_num = -1\<close> the product is 1, the validation passes, the
  searches find no ending block (\<^verbatim>\<open>e_blk_r\<close> and \<^verbatim>\<open>e_blk_c\<close> stay -1), no loop body
  runs, and on every well-formed handle, for every operator and access mode, the call
  returns \<^verbatim>\<open>GTM_SUCCESS\<close> and leaves the handle as it was: no MPI call, no queued
  request, no counter changed.
\<close>

theorem GTM_updateBlock_negative_extent:
  assumes "geometry_ok gtm"
  shows "GTM_updateBlock MPI_DT_SB_DIM_MAX (Some gtm) opr 0 (- 1) 0 (- 1)
           src_buf src_buf_ld access_mode = Some (GTM_SUCCESS, Some gtm)"
proof -
  have fb: "find_blk displs blocks 0 (- 2) 0 0 (- 1) = Some (0, - 1)"
    if ok: "displs_ok displs blocks n" for displs blocks n
  proof (rule find_blk_last)
    show "int (length displs) = blocks + 1" using ok by (simp add: displs_ok_def)
    show "(0::int) \<le> 0" by simp
    have b: "0 < blocks" using ok by (simp add: displs_ok_def)
    have "inb displs 0 0"
      using displs_ok_first [OF ok] displs_ok_less [OF ok, of 0 1] b
      by (simp add: inb_def)
    moreover have "\<not> inb displs j 0" if "0 < j" "j < blocks" for j
      using displs_ok_less [OF ok, of 0 j] displs_ok_first [OF ok] that
      by (simp add: inb_def)
    ultimately show "(\<forall>j. 0 \<le> j \<and> j < blocks \<longrightarrow> \<not> inb displs j 0) \<and> (0::int) = 0 \<or>
        0 \<le> (0::int) \<and> 0 < blocks \<and> inb displs 0 0 \<and>
        (\<forall>j. 0 < j \<and> j < blocks \<longrightarrow> \<not> inb displs j 0)"
      using b by simp
    have "\<not> inb displs j (- 2)" if "0 \<le> j" "j < blocks" for j
      using displs_ok_le [OF ok, of 0 j] displs_ok_first [OF ok] that
      by (simp add: inb_def)
    then show "(\<forall>j. 0 \<le> j \<and> j < blocks \<longrightarrow> \<not> inb displs j (- 2)) \<and> (- 1 :: int) = - 1 \<or>
        0 \<le> (- 1 :: int) \<and> - 1 < blocks \<and> inb displs (- 1) (- 2) \<and>
        (\<forall>j. - 1 < j \<and> j < blocks \<longrightarrow> \<not> inb displs j (- 2))"
      by simp
  qed
  from assms have r: "displs_ok (r_displs gtm) (r_blocks gtm) (nrows gtm)"
    and c: "displs_ok (c_displs gtm) (c_blocks gtm) (ncols gtm)"
    by (simp_all add: geometry_ok_def)
  have n: "0 < nrows gtm" "0 < ncols gtm"
    using displs_ok_less [OF r, of 0 "r_blocks gtm"] displs_ok_first [OF r] displs_ok_last [OF r]
      displs_ok_less [OF c, of 0 "c_blocks gtm"] displs_ok_first [OF c] displs_ok_last [OF c]
      r c
    by (simp_all add: displs_ok_def)
  have "update_loops body gtm 0 (- 1) 0 (- 1) st = Some (GTM_SUCCESS, st)" for body and st :: GTMatrix
    by (simp add: update_loops_def c_arith fb [OF r] fb [OF c] update_rows.simps)
  with n show ?thesis
    by (simp add: GTM_updateBlock_def c_arith)
qed

theorem GTM_updateBlock_negative_extent_witness:
  "geometry_ok gtm4 \<and>
   GTM_updateBlock 16 (Some gtm4) MPI_REPLACE 0 (- 1) 0 (- 1) 1000 4 BLOCKING_ACCESS
     = Some (GTM_SUCCESS, Some gtm4)"
  using GTM_updateBlock_negative_extent [of gtm4 16 MPI_REPLACE 1000 4 BLOCKING_ACCESS]
  by (simp add: geometry_ok_def displs_ok_def gtm4_def)



text \<open>
  Claim C4. On a well-formed handle (\<open>geometry_ok\<close>, \<open>ints_ok\<close>), for a destination
  whose local region is well formed (\<open>local_ok\<close>: no displacement into it and no
  number of elements of a part of it wraps around) and a cache whose number of entries,
  \<^verbatim>\<open>MPI_DT_SB_DIM_MAX\<close> squared, is an int, and for a non-empty sub-rectangle inside
  the tile of the destination,
  \<^verbatim>\<open>GTM_updateBlockToProcess\<close> picks the descriptors by the priority policy. With both
  dimensions within \<^verbatim>\<open>MPI_DT_SB_DIM_MAX\<close> the target descriptor is the cached one at
  index \<open>(row_num - 1) * MPI_DT_SB_DIM_MAX + (col_num - 1)\<close>; the source descriptor is
  the cached no-stride one at that index when \<open>col_num = src_buf_ld\<close>, otherwise the
  same cached strided one when \<open>ld_local = src_buf_ld\<close>, otherwise a vector type that is
  built, committed, used once and freed right after the transfer. With a dimension
  above the bound both descriptors are built, committed, used once and freed right
  after the transfer. Nothing else is called.
\<close>

theorem GTM_updateBlockToProcess_descriptors:
  assumes "geometry_ok gtm" and "rank_ok gtm dst_rank" and "ints_ok gtm"
    and "in_tile gtm dst_rank row_start row_num col_start col_num"
    and "local_ok gtm dst_rank"
    and "c_int (MPI_DT_SB_DIM_MAX * MPI_DT_SB_DIM_MAX)"
    and "block_dt_id = (row_num - 1) * MPI_DT_SB_DIM_MAX + (col_num - 1)"
    and "dst_pos = (row_start - fst (tile_rows gtm dst_rank)) * ld_local gtm +
                   (col_start - fst (tile_cols gtm dst_rank))"
  shows "GTM_updateBlockToProcess MPI_DT_SB_DIM_MAX gtm dst_rank opr
           row_start row_num col_start col_num src_buf src_buf_ld =
         Some (GTM_SUCCESS, mpi gtm
           (if row_num \<le> MPI_DT_SB_DIM_MAX \<and> col_num \<le> MPI_DT_SB_DIM_MAX then
              if col_num = src_buf_ld then
                [MPI_Accumulate src_buf (Sb_nostride block_dt_id) dst_rank dst_pos
                   (Sb_stride block_dt_id) opr]
              else if ld_local gtm = src_buf_ld then
                [MPI_Accumulate src_buf (Sb_stride block_dt_id) dst_rank dst_pos
                   (Sb_stride block_dt_id) opr]
              else
                [MPI_Type_vector row_num col_num src_buf_ld,
                 MPI_Type_commit (Vector_dt row_num col_num src_buf_ld),
                 MPI_Accumulate src_buf (Vector_dt row_num col_num src_buf_ld) dst_rank dst_pos
                   (Sb_stride block_dt_id) opr,
                 MPI_Type_free (Vector_dt row_num col_num src_buf_ld)]
            else
              [MPI_Type_vector row_num col_num (ld_local gtm),
               MPI_Type_vector row_num col_num src_buf_ld,
               MPI_Type_commit (Vector_dt row_num col_num (ld_local gtm)),
               MPI_Type_commit (Vector_dt row_num col_num src_buf_ld),
               MPI_Accumulate src_buf (Vector_dt row_num col_num src_buf_ld) dst_rank dst_pos
                 (Vector_dt row_num col_num (ld_local gtm)) opr,
               MPI_Type_free (Vector_dt row_num col_num (ld_local gtm)),
               MPI_Type_free (Vector_dt row_num col_num src_buf_ld)]))"
  unfolding GTM_updateBlockToProcess_in_tile [OF assms(1-6)] assms(7,8)
  by (simp add: encoder_policy_def Let_def)

theorem GTM_updateBlockToProcess_descriptors_witness:
  "geometry_ok gtm4 \<and> rank_ok gtm4 3 \<and> ints_ok gtm4 \<and> local_ok gtm4 3 \<and>
   in_tile gtm4 3 3 1 2 2 \<and> in_tile gtm4 3 3 1 2 1 \<and> c_int (16 * 16) \<and> c_int (1 * 1) \<and>
   GTM_updateBlockToProcess 16 gtm4 3 MPI_SUM 3 1 2 2 1000 2 =
     Some (GTM_SUCCESS, mpi gtm4
       [MPI_Accumulate 1000 (Sb_nostride 1) 3 2 (Sb_stride 1) MPI_SUM]) \<and>
   GTM_updateBlockToProcess 16 gtm4 3 MPI_SUM 3 1 2 1 1000 2 =
     Some (GTM_SUCCESS, mpi gtm4
       [MPI_Accumulate 1000 (Sb_stride 0) 3 2 (Sb_stride 0) MPI_SUM]) \<and>
   GTM_updateBlockToProcess 16 gtm4 3 MPI_SUM 3 1 2 2 1000 4 =
     Some (GTM_SUCCESS, mpi gtm4
       [MPI_Type_vector 1 2 4, MPI_Type_commit (Vector_dt 1 2 4),
        MPI_Accumulate 1000 (Vector_dt 1 2 4) 3 2 (Sb_stride 1) MPI_SUM,
        MPI_Type_free (Vector_dt 1 2 4)]) \<and>
   GTM_updateBlockToProcess 1 gtm4 3 MPI_SUM 3 1 2 2 1000 4 =
     Some (GTM_SUCCESS, mpi gtm4
       [MPI_Type_vector 1 2 2, MPI_Type_vector 1 2 4,
        MPI_Type_commit (Vector_dt 1 2 2), MPI_Type_commit (Vector_dt 1 2 4),
        MPI_Accumulate 1000 (Vector_dt 1 2 4) 3 2 (Vector_dt 1 2 2) MPI_SUM,
        MPI_Type_free (Vector_dt 1 2 2), MPI_Type_free (Vector_dt 1 2 4)])"
proof -
  have g: "geometry_ok gtm4" by (simp add: geometry_ok_def displs_ok_def gtm4_def)
  have r: "rank_ok gtm4 3" by (simp add: rank_ok_def gtm4_def)
  have t1: "in_tile gtm4 3 3 1 2 2" and t2: "in_tile gtm4 3 3 1 2 1"
    by (simp_all add: in_tile_def tile_rows_def tile_cols_def gtm4_def)
  have p: "(2::int) = (3 - fst (tile_rows gtm4 3)) * ld_local gtm4 + (2 - fst (tile_cols gtm4 3))"
    by (simp add: tile_rows_def tile_cols_def gtm4_def)
  have l: "ld_local gtm4 = 2" by (simp add: gtm4_def)
  have i: "ints_ok gtm4" by (simp add: ints_ok_def c_int_def gtm4_def)
  have lo: "local_ok gtm4 3"
    by (simp add: local_ok_def c_int_def tile_rows_def tile_cols_def gtm4_def)
  have m: "c_int (16 * 16)" "c_int (1 * 1)" by (simp_all add: c_int_def)
  show ?thesis
    using GTM_updateBlockToProcess_descriptors [OF g r i t1 lo m(1) _ p, of 1 MPI_SUM 1000 2]
      GTM_updateBlockToProcess_descriptors [OF g r i t2 lo m(1) _ p, of 0 MPI_SUM 1000 2]
      GTM_updateBlockToProcess_descriptors [OF g r i t1 lo m(1) _ p, of 1 MPI_SUM 1000 4]
      GTM_updateBlockToProcess_descriptors [OF g r i t1 lo m(2) _ p, of 1 MPI_SUM 1000 4]
      g r i lo t1 t2 m
    by (simp add: l)
qed








text \<open>
  Claim C9. The batch epoch state machine. \<^verbatim>\<open>GTM_startBatchUpdate\<close> fails with
  \<^verbatim>\<open>GTM_IN_BATCHED_GET\<close>, \<^verbatim>\<open>GTM_IN_BATCHED_PUT\<close> or \<^verbatim>\<open>GTM_IN_BATCHED_ACC\<close>, whichever flag
  it finds set first, and changes nothing; with no flag set it empties the request
  vector of every destination and sets \<^verbatim>\<open>in_batch_put\<close> and \<^verbatim>\<open>in_batch_acc\<close> together
  (the handle has one request vector per process of the group).
  \<^verbatim>\<open>GTM_execBatchUpdate\<close> and \<^verbatim>\<open>GTM_stopBatchUpdate\<close> fail with \<^verbatim>\<open>GTM_NO_BATCHED_PUT\<close> or
  \<^verbatim>\<open>GTM_NO_BATCHED_ACC\<close> when the flag is clear. \<^verbatim>\<open>GTM_stopBatchUpdate\<close> otherwise clears
  both flags and nothing else: no MPI call is made and the request vectors keep their
  entries, which stay unapplied.
\<close>

theorem batch_epoch_state_machine:
  "(in_batch_get gtm \<noteq> 0 \<longrightarrow>
      GTM_startBatchUpdate (Some gtm) = Some (GTM_IN_BATCHED_GET, Some gtm)) \<and>
   (in_batch_get gtm = 0 \<and> in_batch_put gtm \<noteq> 0 \<longrightarrow>
      GTM_startBatchUpdate (Some gtm) = Some (GTM_IN_BATCHED_PUT, Some gtm)) \<and>
   (in_batch_get gtm = 0 \<and> in_batch_put gtm = 0 \<and> in_batch_acc gtm \<noteq> 0 \<longrightarrow>
      GTM_startBatchUpdate (Some gtm) = Some (GTM_IN_BATCHED_ACC, Some gtm)) \<and>
   (in_batch_get gtm = 0 \<and> in_batch_put gtm = 0 \<and> in_batch_acc gtm = 0 \<and>
    comm_size gtm = int (length (req_vec gtm)) \<longrightarrow>
      GTM_startBatchUpdate (Some gtm) =
        Some (GTM_SUCCESS,
              Some (gtm\<lparr>req_vec := replicate (length (req_vec gtm)) [],
                         in_batch_put := 1, in_batch_acc := 1\<rparr>))) \<and>
   (in_batch_put gtm = 0 \<longrightarrow>
      GTM_execBatchUpdate MPI_DT_SB_DIM_MAX (Some gtm) = Some (GTM_NO_BATCHED_PUT, Some gtm) \<and>
      GTM_stopBatchUpdate (Some gtm) = Some (GTM_NO_BATCHED_PUT, Some gtm)) \<and>
   (in_batch_put gtm \<noteq> 0 \<and> in_batch_acc gtm = 0 \<longrightarrow>
      GTM_execBatchUpdate MPI_DT_SB_DIM_MAX (Some gtm) = Some (GTM_NO_BATCHED_ACC, Some gtm) \<and>
      GTM_stopBatchUpdate (Some gtm) = Some (GTM_NO_BATCHED_ACC, Some gtm)) \<and>
   (in_batch_put gtm \<noteq> 0 \<and> in_batch_acc gtm \<noteq> 0 \<longrightarrow>
      GTM_stopBatchUpdate (Some gtm) =
        Some (GTM_SUCCESS, Some (gtm\<lparr>in_batch_put := 0, in_batch_acc := 0\<rparr>)))"
proof -
  have "reset_vecs gtm 0 = Some (gtm\<lparr>req_vec := replicate (length (req_vec gtm)) []\<rparr>)"
    if "comm_size gtm = int (length (req_vec gtm))"
    using that by (intro reset_vecs_all) simp_all
  then show ?thesis
    by (simp add: GTM_startBatchUpdate_def GTM_execBatchUpdate_def GTM_stopBatchUpdate_def)
qed

theorem batch_epoch_state_machine_witness:
  "GTM_startBatchUpdate (Some (gtm4\<lparr>in_batch_get := 1\<rparr>))
     = Some (GTM_IN_BATCHED_GET, Some (gtm4\<lparr>in_batch_get := 1\<rparr>)) \<and>
   GTM_startBatchUpdate (Some gtm4_batch) = Some (GTM_IN_BATCHED_PUT, Some gtm4_batch) \<and>
   GTM_startBatchUpdate (Some (gtm4\<lparr>in_batch_acc := 1\<rparr>))
     = Some (GTM_IN_BATCHED_ACC, Some (gtm4\<lparr>in_batch_acc := 1\<rparr>)) \<and>
   GTM_startBatchUpdate (Some (gtm4\<lparr>req_vec := [[req4 0 2 0 2], [], [], []]\<rparr>))
     = Some (GTM_SUCCESS, Some gtm4_batch) \<and>
   GTM_execBatchUpdate 16 (Some gtm4) = Some (GTM_NO_BATCHED_PUT, Some gtm4) \<and>
   GTM_stopBatchUpdate (Some gtm4) = Some (GTM_NO_BATCHED_PUT, Some gtm4) \<and>
   GTM_execBatchUpdate 16 (Some (gtm4\<lparr>in_batch_put := 1\<rparr>))
     = Some (GTM_NO_BATCHED_ACC, Some (gtm4\<lparr>in_batch_put := 1\<rparr>)) \<and>
   GTM_stopBatchUpdate (Some (gtm4\<lparr>in_batch_put := 1\<rparr>))
     = Some (GTM_NO_BATCHED_ACC, Some (gtm4\<lparr>in_batch_put := 1\<rparr>)) \<and>
   GTM_stopBatchUpdate (Some (gtm4_batch\<lparr>req_vec := [[req4 0 2 0 2], [], [], []]\<rparr>))
     = Some (GTM_SUCCESS, Some (gtm4\<lparr>req_vec := [[req4 0 2 0 2], [], [], []]\<rparr>))"
  using batch_epoch_state_machine [of "gtm4\<lparr>in_batch_get := 1\<rparr>" 16]
    batch_epoch_state_machine [of gtm4_batch 16]
    batch_epoch_state_machine [of "gtm4\<lparr>in_batch_acc := 1\<rparr>" 16]
    batch_epoch_state_machine [of "gtm4\<lparr>req_vec := [[req4 0 2 0 2], [], [], []]\<rparr>" 16]
    batch_epoch_state_machine [of gtm4 16]
    batch_epoch_state_machine [of "gtm4\<lparr>in_batch_put := 1\<rparr>" 16]
    batch_epoch_state_machine [of "gtm4_batch\<lparr>req_vec := [[req4 0 2 0 2], [], [], []]\<rparr>" 16]
  by (simp add: gtm4_batch_def gtm4_def)


text \<open>
  Claim C2, evaluated where the code departs from it. On the idle 4 by 4 matrix (no
  batch flag set) \<^verbatim>\<open>GTM_addPutBlockRequest\<close> for the tile of rank 0 does not fail: it
  returns \<^verbatim>\<open>GTM_SUCCESS\<close> and the request is appended to the request vector of rank 0.
  Neither the wrapper nor the batch branch of \<^verbatim>\<open>GTM_updateBlock\<close> reads a batch flag.
\<close>

theorem GTM_addPutBlockRequest_idle:
  "in_batch_get gtm4 = 0 \<and> in_batch_put gtm4 = 0 \<and> in_batch_acc gtm4 = 0 \<and>
   GTM_addPutBlockRequest 16 (Some gtm4) 0 2 0 2 1000 2
     = Some (GTM_SUCCESS, Some (gtm4\<lparr>req_vec := [[req4 0 2 0 2], [], [], []]\<rparr>))"
  by (simp add: GTM_addPutBlockRequest_def GTM_updateBlock_def c_arith update_loops_def
      find_blk.simps in_blk_def rd_def wr_def update_rows.simps update_cols.simps
      getRectIntersection_def update_dst_def update_batch_def GTM_pushToReqVector_def
      req4_def gtm4_def)








text \<open>
  Claim C8. On a well-formed handle (\<open>geometry_ok\<close>, \<open>ints_ok\<close>, \<open>group_ok\<close>, one
  process for each position of the grid, the local region of every destination well
  formed, the loop bound \<^verbatim>\<open>comm_size + my_rank\<close> of line 221 and the number of entries of
  the cache ints), inside a batch epoch, when every queued request lies inside the tile
  of its destination (as every request queued by \<^verbatim>\<open>GTM_updateBlock\<close> does),
  \<^verbatim>\<open>GTM_execBatchUpdate\<close> succeeds and the MPI calls it makes are, one destination after
  the other in round-robin order from the caller's own rank and wrapping around the
  group: nothing for a destination whose request vector is empty; otherwise the lock of
  the destination, the transfers of its requests from index 0 upwards (the order in
  which \<^verbatim>\<open>GTM_pushToReqVector\<close> appended them), and the unlock. All request vectors are
  empty afterwards and nothing else changes.
\<close>

theorem GTM_execBatchUpdate_order:
  assumes "geometry_ok gtm" and "group_ok gtm"
    and "comm_size gtm = r_blocks gtm * c_blocks gtm"
    and "in_batch_put gtm \<noteq> 0" and "in_batch_acc gtm \<noteq> 0"
    and "\<forall>d. 0 \<le> d \<and> d < comm_size gtm \<longrightarrow> (\<forall>r \<in> set (req_vec gtm ! nat d). req_ok gtm d r)"
    and "ints_ok gtm"
    and "\<forall>d. 0 \<le> d \<and> d < comm_size gtm \<longrightarrow> local_ok gtm d"
    and "c_int (MPI_DT_SB_DIM_MAX * MPI_DT_SB_DIM_MAX)"
    and "c_int (comm_size gtm + my_rank gtm)"
  shows "GTM_execBatchUpdate MPI_DT_SB_DIM_MAX (Some gtm) =
         Some (GTM_SUCCESS,
               Some ((mpi gtm (concat (map (dst_calls MPI_DT_SB_DIM_MAX gtm)
                                        (round_robin (my_rank gtm) (comm_size gtm)))))
                       \<lparr>req_vec := replicate (length (req_vec gtm)) []\<rparr>))"
proof -
  let ?n = "comm_size gtm" and ?m = "my_rank gtm"
  from assms(2) have n: "0 < ?n" and len: "int (length (req_vec gtm)) = ?n"
    and m: "0 \<le> ?m"
    by (simp_all add: group_ok_def)
  have ok: "\<forall>j. ?m \<le> j \<and> j < ?m + ?n \<longrightarrow>
           (\<forall>r \<in> set (req_vec gtm ! nat (j mod ?n)). req_ok gtm (j mod ?n) r)"
    using assms(6) n by simp
  have "map (\<lambda>j. dst_calls MPI_DT_SB_DIM_MAX gtm (j mod ?n)) [?m .. ?m + ?n - 1] =
        map (dst_calls MPI_DT_SB_DIM_MAX gtm) (round_robin ?m ?n)"
    by (simp add: round_robin_def upto_shift [of ?m ?n] comp_def)
  with exec_dsts_ok [OF assms(1) n len assms(3) m order_refl _ ok assms(7-10)] n
    fold_clear_window [OF n len, of ?m]
  have "exec_dsts MPI_DT_SB_DIM_MAX gtm ?m =
        Some (GTM_SUCCESS,
              (mpi gtm (concat (map (dst_calls MPI_DT_SB_DIM_MAX gtm) (round_robin ?m ?n))))
                \<lparr>req_vec := replicate (length (req_vec gtm)) []\<rparr>)"
    by simp
  with assms(4,5) show ?thesis by (simp add: GTM_execBatchUpdate_def)
qed

theorem GTM_execBatchUpdate_order_witness:
  "geometry_ok gtm4_queued \<and> group_ok gtm4_queued \<and> ints_ok gtm4_queued \<and>
   local_ok gtm4_queued 0 \<and> local_ok gtm4_queued 2 \<and>
   req_ok gtm4_queued 0 (req4 1 1 0 1) \<and> c_int (16 * 16) \<and>
   GTM_execBatchUpdate 16 (Some gtm4_queued) =
     Some (GTM_SUCCESS,
           Some (gtm4_batch\<lparr>mpi_calls :=
             [MPI_Win_lock 1 2,
              MPI_Accumulate 1000 (Sb_nostride 17) 2 0 (Sb_stride 17) MPI_REPLACE,
              MPI_Win_unlock 2,
              MPI_Win_lock 1 0,
              MPI_Accumulate 1000 (Sb_nostride 17) 0 0 (Sb_stride 17) MPI_REPLACE,
              MPI_Accumulate 1000 (Sb_stride 0) 0 2 (Sb_stride 0) MPI_REPLACE,
              MPI_Win_unlock 0]\<rparr>))"
proof -
  have g: "geometry_ok gtm4_queued"
    by (simp add: geometry_ok_def displs_ok_def gtm4_queued_def gtm4_batch_def gtm4_def)
  have gr: "group_ok gtm4_queued"
    and c: "comm_size gtm4_queued = r_blocks gtm4_queued * c_blocks gtm4_queued"
    and p: "in_batch_put gtm4_queued \<noteq> 0" and a: "in_batch_acc gtm4_queued \<noteq> 0"
    by (simp_all add: group_ok_def gtm4_queued_def gtm4_batch_def gtm4_def)
  have q: "req_vec gtm4_queued = [[req4 0 2 0 2, req4 1 1 0 1], [], [req4 2 2 0 2], []]"
    and n: "comm_size gtm4_queued = 4" and m: "my_rank gtm4_queued = 1"
    and l: "acc_lock_type gtm4_queued = 1" "ld_local gtm4_queued = 2"
    by (simp_all add: gtm4_queued_def gtm4_batch_def gtm4_def)
  have t: "tile_rows gtm4_queued 0 = (0, 2)" "tile_cols gtm4_queued 0 = (0, 2)"
    "tile_rows gtm4_queued 2 = (2, 4)" "tile_cols gtm4_queued 2 = (0, 2)"
    by (simp_all add: tile_rows_def tile_cols_def gtm4_queued_def gtm4_batch_def gtm4_def)
  have ok: "\<forall>d. 0 \<le> d \<and> d < comm_size gtm4_queued \<longrightarrow>
              (\<forall>r \<in> set (req_vec gtm4_queued ! nat d). req_ok gtm4_queued d r)"
  proof (intro allI impI)
    fix d assume "0 \<le> d \<and> d < comm_size gtm4_queued"
    then consider "d = 0" | "d = 1" | "d = 2" | "d = 3" unfolding n by linarith
    then show "\<forall>r \<in> set (req_vec gtm4_queued ! nat d). req_ok gtm4_queued d r"
      by cases (simp_all add: q req_ok_def in_tile_def t req4_def)
  qed
  have u: "[0 .. 3 :: int] = [0, 1, 2, 3]" by (simp add: upto.simps)
  have i: "ints_ok gtm4_queued"
    by (simp add: ints_ok_def c_int_def gtm4_queued_def gtm4_batch_def gtm4_def)
  have lo: "\<forall>d. 0 \<le> d \<and> d < comm_size gtm4_queued \<longrightarrow> local_ok gtm4_queued d"
  proof (intro allI impI)
    fix d assume "0 \<le> d \<and> d < comm_size gtm4_queued"
    then consider "d = 0" | "d = 1" | "d = 2" | "d = 3" unfolding n by linarith
    then show "local_ok gtm4_queued d"
      by cases
        (simp_all add: local_ok_def c_int_def tile_rows_def tile_cols_def
           gtm4_queued_def gtm4_batch_def gtm4_def)
  qed
  have mm: "c_int (16 * 16)" by (simp add: c_int_def)
  have cm: "c_int (comm_size gtm4_queued + my_rank gtm4_queued)"
    by (simp add: n m c_int_def)
  have e: "GTM_execBatchUpdate 16 (Some gtm4_queued) =
     Some (GTM_SUCCESS,
           Some (gtm4_batch\<lparr>mpi_calls :=
             [MPI_Win_lock 1 2,
              MPI_Accumulate 1000 (Sb_nostride 17) 2 0 (Sb_stride 17) MPI_REPLACE,
              MPI_Win_unlock 2,
              MPI_Win_lock 1 0,
              MPI_Accumulate 1000 (Sb_nostride 17) 0 0 (Sb_stride 17) MPI_REPLACE,
              MPI_Accumulate 1000 (Sb_stride 0) 0 2 (Sb_stride 0) MPI_REPLACE,
              MPI_Win_unlock 0]\<rparr>))"
    unfolding GTM_execBatchUpdate_order [OF g gr c p a ok i lo mm cm]
    by (simp add: round_robin_def n m u dst_calls_def q req_calls_def encoder_policy_def
        t l req4_def)
       (simp add: mpi_def gtm4_queued_def gtm4_batch_def gtm4_def Let_def)
  have r: "req_ok gtm4_queued 0 (req4 1 1 0 1)"
    by (simp add: req_ok_def in_tile_def t req4_def)
  from lo have "local_ok gtm4_queued 0" "local_ok gtm4_queued 2" by (simp_all add: n)
  with g gr i r mm e show ?thesis by (intro conjI)
qed


end
